theory Spec2Isabelle
  imports Main "HOL-Library.Multiset"
begin

section \<open>Python strings\<close>

text \<open>
  A Python \<open>str\<close> is modelled as a \<^typ>\<open>string\<close>. The character tables below are
  Python's for the code points 0 to 127; a character above 127 is carried through
  unchanged, as an uncased character that is not white space. Python's case mapping
  beyond ASCII is driven by the Unicode database and is outside this model.
\<close>

definition ascii_uppercase :: string where
  "ascii_uppercase = ''ABCDEFGHIJKLMNOPQRSTUVWXYZ''"

definition ascii_lowercase :: string where
  "ascii_lowercase = ''abcdefghijklmnopqrstuvwxyz''"

text \<open>\<open>str.isspace\<close> on ASCII: tab, line feed, vertical tab, form feed, carriage return,
  the four separators 0x1C to 0x1F, and the space.\<close>

definition ascii_whitespace :: string where
  "ascii_whitespace =
     [CHR 0x09, CHR 0x0A, CHR 0x0B, CHR 0x0C, CHR 0x0D,
      CHR 0x1C, CHR 0x1D, CHR 0x1E, CHR 0x1F, CHR 0x20]"

definition is_upper :: "char \<Rightarrow> bool" where
  "is_upper c = (c \<in> set ascii_uppercase)"

definition is_lower :: "char \<Rightarrow> bool" where
  "is_lower c = (c \<in> set ascii_lowercase)"

definition is_cased :: "char \<Rightarrow> bool" where
  "is_cased c = (is_upper c \<or> is_lower c)"

definition is_space :: "char \<Rightarrow> bool" where
  "is_space c = (c \<in> set ascii_whitespace)"

definition lower_char :: "char \<Rightarrow> char" where
  "lower_char c =
     (case map_of (zip ascii_uppercase ascii_lowercase) c of Some l \<Rightarrow> l | None \<Rightarrow> c)"

definition upper_char :: "char \<Rightarrow> char" where
  "upper_char c =
     (case map_of (zip ascii_lowercase ascii_uppercase) c of Some u \<Rightarrow> u | None \<Rightarrow> c)"

text \<open>\<open>s.lower()\<close>\<close>

definition py_lower :: "string \<Rightarrow> string" where
  "py_lower s = map lower_char s"

text \<open>\<open>s.strip()\<close>: white space is removed at both ends.\<close>

definition py_strip :: "string \<Rightarrow> string" where
  "py_strip s = rev (dropWhile is_space (rev (dropWhile is_space s)))"

text \<open>\<open>s.title()\<close>: a cased character is put in upper case when the character before it
  is not cased (or there is none), and in lower case otherwise. The flag is the
  \<open>previous_is_cased\<close> of the interpreter's loop.\<close>

fun title_from :: "bool \<Rightarrow> string \<Rightarrow> string" where
  "title_from previous_is_cased [] = []"
| "title_from previous_is_cased (c # cs) =
     (if previous_is_cased then lower_char c else upper_char c) # title_from (is_cased c) cs"

definition py_title :: "string \<Rightarrow> string" where
  "py_title s = title_from False s"

section \<open>The registry tables\<close>

text \<open>A dict literal keeps its insertion order; the tables are association lists in the
  order of the source. No table repeats a key.\<close>

definition INDIAN_TEST_COSTS :: "(string \<times> int) list" where
  "INDIAN_TEST_COSTS =
    [(''HbA1c'', 700),
     (''Lipid Profile'', 1000),
     (''CBC'', 500),
     (''Complete Blood Count'', 500),
     (''Hemoglobin'', 150),
     (''Thyroid Panel'', 800),
     (''TSH'', 350),
     (''T3'', 300),
     (''T4'', 300),
     (''Liver Function Test'', 900),
     (''LFT'', 900),
     (''Kidney Function Test'', 850),
     (''KFT'', 850),
     (''Creatinine'', 250),
     (''Urea'', 200),
     (''Blood Sugar Fasting'', 100),
     (''Blood Sugar PP'', 100),
     (''HBA1C'', 700),
     (''Fasting Blood Sugar'', 100),
     (''Random Blood Sugar'', 100),
     (''Uric Acid'', 250),
     (''Vitamin D'', 1200),
     (''Vitamin B12'', 800),
     (''Iron Studies'', 600),
     (''Ferritin'', 500),
     (''ESR'', 150),
     (''CRP'', 400),
     (''Electrolytes'', 500),
     (''Calcium'', 200),
     (''Phosphorus'', 200),
     (''Magnesium'', 300),
     (''Sodium'', 150),
     (''Potassium'', 150),
     (''Chloride'', 150),
     (''LDL Cholesterol'', 350),
     (''HDL Cholesterol'', 350),
     (''Triglycerides'', 350),
     (''Total Cholesterol'', 350),
     (''VLDL'', 250),
     (''Prothrombin Time'', 400),
     (''PT INR'', 400),
     (''APTT'', 400),
     (''D-Dimer'', 1500),
     (''Troponin'', 1200),
     (''BNP'', 2000),
     (''PSA'', 800),
     (''CA-125'', 1500),
     (''AFP'', 800),
     (''CEA'', 1000),
     (''Urine Routine'', 200),
     (''Urine Culture'', 600),
     (''Microalbumin'', 500),
     (''24 Hour Urine Protein'', 400),
     (''X-Ray Chest'', 600),
     (''X-Ray'', 500),
     (''Ultrasound Abdomen'', 1200),
     (''Ultrasound'', 1000),
     (''ECG'', 400),
     (''Echo'', 2500),
     (''Echocardiography'', 2500),
     (''CT Scan'', 5000),
     (''MRI'', 8000),
     (''PET Scan'', 25000),
     (''Mammography'', 2000),
     (''Bone Density'', 2500),
     (''DEXA Scan'', 2500),
     (''Stool Test'', 300),
     (''Stool Culture'', 600),
     (''Sputum Test'', 300),
     (''COVID-19 RT-PCR'', 500),
     (''Dengue NS1'', 600),
     (''Malaria Test'', 400),
     (''Typhoid Test'', 400),
     (''Widal Test'', 300)]"

definition VALIDITY_PERIODS :: "(string \<times> int) list" where
  "VALIDITY_PERIODS =
    [(''HbA1c'', 90),
     (''Lipid Profile'', 180),
     (''LDL Cholesterol'', 180),
     (''HDL Cholesterol'', 180),
     (''Total Cholesterol'', 180),
     (''Triglycerides'', 180),
     (''Thyroid Panel'', 90),
     (''TSH'', 90),
     (''T3'', 90),
     (''T4'', 90),
     (''Vitamin D'', 90),
     (''Vitamin B12'', 90),
     (''CBC'', 30),
     (''Complete Blood Count'', 30),
     (''Hemoglobin'', 30),
     (''Blood Sugar Fasting'', 30),
     (''Fasting Blood Sugar'', 30),
     (''Random Blood Sugar'', 7),
     (''Blood Sugar PP'', 30),
     (''Liver Function Test'', 30),
     (''LFT'', 30),
     (''Kidney Function Test'', 30),
     (''KFT'', 30),
     (''Creatinine'', 30),
     (''Urea'', 30),
     (''Electrolytes'', 30),
     (''Uric Acid'', 60),
     (''X-Ray Chest'', 365),
     (''X-Ray'', 365),
     (''Ultrasound Abdomen'', 180),
     (''Ultrasound'', 180),
     (''ECG'', 180),
     (''Echo'', 365),
     (''Echocardiography'', 365),
     (''CT Scan'', 365),
     (''MRI'', 365),
     (''PSA'', 90),
     (''CA-125'', 90),
     (''AFP'', 90),
     (''CEA'', 90),
     (''Urine Routine'', 14),
     (''Urine Culture'', 14),
     (''default'', 30)]"

definition TEST_NAME_ALIASES :: "(string \<times> string) list" where
  "TEST_NAME_ALIASES =
    [(''complete blood count'', ''CBC''),
     (''cbc'', ''CBC''),
     (''blood count'', ''CBC''),
     (''hemogram'', ''CBC''),
     (''hba1c'', ''HbA1c''),
     (''glycated hemoglobin'', ''HbA1c''),
     (''glycosylated hemoglobin'', ''HbA1c''),
     (''hb a1c'', ''HbA1c''),
     (''lipid panel'', ''Lipid Profile''),
     (''lipids'', ''Lipid Profile''),
     (''cholesterol test'', ''Lipid Profile''),
     (''thyroid function test'', ''Thyroid Panel''),
     (''tft'', ''Thyroid Panel''),
     (''thyroid profile'', ''Thyroid Panel''),
     (''liver function test'', ''Liver Function Test''),
     (''lft'', ''Liver Function Test''),
     (''liver panel'', ''Liver Function Test''),
     (''kidney function test'', ''Kidney Function Test''),
     (''kft'', ''Kidney Function Test''),
     (''renal function test'', ''Kidney Function Test''),
     (''rft'', ''Kidney Function Test''),
     (''fasting blood sugar'', ''Fasting Blood Sugar''),
     (''fbs'', ''Fasting Blood Sugar''),
     (''fasting glucose'', ''Fasting Blood Sugar''),
     (''random blood sugar'', ''Random Blood Sugar''),
     (''rbs'', ''Random Blood Sugar''),
     (''pp blood sugar'', ''Blood Sugar PP''),
     (''postprandial blood sugar'', ''Blood Sugar PP''),
     (''ppbs'', ''Blood Sugar PP''),
     (''chest x-ray'', ''X-Ray Chest''),
     (''chest xray'', ''X-Ray Chest''),
     (''cxr'', ''X-Ray Chest''),
     (''electrocardiogram'', ''ECG''),
     (''ekg'', ''ECG''),
     (''echocardiogram'', ''Echocardiography''),
     (''2d echo'', ''Echocardiography'')]"

section \<open>The name normalizer\<close>

text \<open>\<open>_normalize_test_name\<close> of \<open>ReportIntelligenceAgent\<close>. The argument is a \<open>str\<close>;
  \<open>None\<close>, which the guard \<open>not test_name\<close> treats as the empty string, is the empty
  string here.\<close>

definition normalize_test_name :: "string \<Rightarrow> string" where
  "normalize_test_name name =
     (if name = [] then ''Unknown Test''
      else let lower_name = py_strip (py_lower name) in
        case map_of TEST_NAME_ALIASES lower_name of
          Some canonical \<Rightarrow> canonical
        | None \<Rightarrow>
            (case find (\<lambda>standard_name. lower_name = py_lower standard_name)
                       (map fst INDIAN_TEST_COSTS) of
               Some standard_name \<Rightarrow> standard_name
             | None \<Rightarrow> py_title (py_strip name)))"

section \<open>Dates\<close>

text \<open>A \<open>datetime.date\<close> is its three fields. Python orders dates by year, then month,
  then day, and the difference of two dates counts the days between their proleptic
  Gregorian ordinals.\<close>

datatype date = Date (year: int) (month: int) (day: int)

definition date_less :: "date \<Rightarrow> date \<Rightarrow> bool" where
  "date_less a b =
     (year a < year b \<or> (year a = year b \<and>
        (month a < month b \<or> (month a = month b \<and> day a < day b))))"

definition is_leap :: "int \<Rightarrow> bool" where
  "is_leap y = (y mod 4 = 0 \<and> (0 < y mod 100 \<or> y mod 400 = 0))"

definition DAYS_IN_MONTH :: "int list" where
  "DAYS_IN_MONTH = [31, 28, 31, 30, 31, 30, 31, 31, 30, 31, 30, 31]"

definition days_in_month :: "int \<Rightarrow> int \<Rightarrow> int" where
  "days_in_month y m = (if m = 2 \<and> is_leap y then 29 else DAYS_IN_MONTH ! nat (m - 1))"

definition days_before_year :: "int \<Rightarrow> int" where
  "days_before_year y = (let p = y - 1 in p * 365 + p div 4 - p div 100 + p div 400)"

definition days_before_month :: "int \<Rightarrow> int \<Rightarrow> int" where
  "days_before_month y m =
     sum_list (take (nat (m - 1)) DAYS_IN_MONTH) + (if 2 < m \<and> is_leap y then 1 else 0)"

definition toordinal :: "date \<Rightarrow> int" where
  "toordinal d = days_before_year (year d) + days_before_month (year d) (month d) + day d"

text \<open>\<open>(a - b).days\<close>\<close>

definition days_between :: "date \<Rightarrow> date \<Rightarrow> int" where
  "days_between a b = toordinal a - toordinal b"

section \<open>Exceptions and parsing a date\<close>

datatype py_error = ValueError | TypeError | KeyError

definition ascii_digits :: string where
  "ascii_digits = ''0123456789''"

definition nonzero_digits :: string where
  "nonzero_digits = ''123456789''"

definition digit_value :: "char \<Rightarrow> int" where
  "digit_value c = (case map_of (zip ascii_digits [0, 1, 2, 3, 4, 5, 6, 7, 8, 9]) c of
                      Some v \<Rightarrow> v | None \<Rightarrow> 0)"

text \<open>
  \<open>datetime.strptime(s, "%Y-%m-%d")\<close> matches \<open>s\<close> against the regular expression that
  the format compiles to: \<open>\d\d\d\d\<close> for the year, \<open>1[0-2]|0[1-9]|[1-9]\<close> for the month,
  \<open>3[0-1]|[1-2]\d|0[1-9]|[1-9]| [1-9]\<close> for the day, with a dash between them. An
  alternative is a pair of character classes (or one class); the alternatives are tried
  in their order. Each function returns the number read and the rest of the string.
\<close>

definition two_chars :: "string \<Rightarrow> string \<Rightarrow> string \<Rightarrow> (int \<times> string) option" where
  "two_chars firsts seconds s =
     (case s of
        a # b # rest \<Rightarrow>
          if a \<in> set firsts \<and> b \<in> set seconds
          then Some (10 * digit_value a + digit_value b, rest) else None
      | _ \<Rightarrow> None)"

definition one_char :: "string \<Rightarrow> string \<Rightarrow> (int \<times> string) option" where
  "one_char digits s =
     (case s of
        a # rest \<Rightarrow> if a \<in> set digits then Some (digit_value a, rest) else None
      | _ \<Rightarrow> None)"

definition match_year :: "string \<Rightarrow> (int \<times> string) option" where
  "match_year s =
     (case two_chars ascii_digits ascii_digits s of
        None \<Rightarrow> None
      | Some (hi, s') \<Rightarrow>
          (case two_chars ascii_digits ascii_digits s' of
             None \<Rightarrow> None
           | Some (lo, rest) \<Rightarrow> Some (100 * hi + lo, rest)))"

definition month_alternatives :: "string \<Rightarrow> (int \<times> string) option list" where
  "month_alternatives s =
     [two_chars ''1'' ''012'' s, two_chars ''0'' nonzero_digits s, one_char nonzero_digits s]"

definition day_alternatives :: "string \<Rightarrow> (int \<times> string) option list" where
  "day_alternatives s =
     [two_chars ''3'' ''01'' s, two_chars ''12'' ascii_digits s, two_chars ''0'' nonzero_digits s,
      one_char nonzero_digits s, two_chars '' '' nonzero_digits s]"

text \<open>The first alternative after which the rest of the pattern goes on: \<open>ok\<close> says whether
  the rest of the string lets the match continue.\<close>

fun first_match :: "(string \<Rightarrow> bool) \<Rightarrow> (int \<times> string) option list \<Rightarrow> (int \<times> string) option" where
  "first_match ok [] = None"
| "first_match ok (None # alts) = first_match ok alts"
| "first_match ok (Some (v, rest) # alts) =
     (if ok rest then Some (v, rest) else first_match ok alts)"

definition starts_with_dash :: "string \<Rightarrow> bool" where
  "starts_with_dash s = (case s of c # _ \<Rightarrow> c = CHR ''-'' | [] \<Rightarrow> False)"

text \<open>A string that the expression does not match, one with characters left after the
  match, a year 0 and a day that the month does not have all raise \<open>ValueError\<close>.\<close>

definition strptime_ymd :: "string \<Rightarrow> py_error + date" where
  "strptime_ymd s =
     (case match_year s of
        None \<Rightarrow> Inl ValueError
      | Some (y, s1) \<Rightarrow>
          (if starts_with_dash s1
           then (case first_match starts_with_dash (month_alternatives (tl s1)) of
             None \<Rightarrow> Inl ValueError
           | Some (m, s2) \<Rightarrow>
               (case first_match (\<lambda>_. True) (day_alternatives (tl s2)) of
                  None \<Rightarrow> Inl ValueError
                | Some (d, s3) \<Rightarrow>
                    (if s3 = [] \<and> 1 \<le> y \<and> d \<le> days_in_month y m
                     then Inr (Date y m d) else Inl ValueError)))
           else Inl ValueError))"

section \<open>History records and the assessment\<close>

text \<open>
  A \<open>datetime.datetime\<close> is a date with a time of day, here in microseconds since
  midnight, and for an aware value the offset from UTC, in microseconds; a naive value
  has no offset. The class is a subclass of \<open>date\<close>.
\<close>

datatype datetime = DateTime (dt_date: date) (dt_micros: int) (dt_utcoffset: "int option")

text \<open>
  A history record is a dict; a field is \<open>None\<close> when the dict has no such key. The date
  is any value: a string, a \<open>date\<close>, a \<open>datetime\<close>, or something that is none of these
  (\<open>None\<close>, a number).
\<close>

datatype pyval = PyNone | PyStr string | PyDate date | PyDateTime datetime | PyInt int

record test_record =
  test_name :: "string option"
  test_date :: "pyval option"
  test_value :: "string option"
  hospital_name :: "string option"

text \<open>\<open>d.get(key, default)\<close>\<close>

definition dict_get :: "'a option \<Rightarrow> 'a \<Rightarrow> 'a" where
  "dict_get field fallback = (case field of Some v \<Rightarrow> v | None \<Rightarrow> fallback)"

text \<open>\<open>d[key]\<close> raises \<open>KeyError\<close> for a key that the dict does not have.\<close>

definition dict_index :: "('k \<times> 'v) list \<Rightarrow> 'k \<Rightarrow> py_error + 'v" where
  "dict_index d k = (case map_of d k of Some v \<Rightarrow> Inr v | None \<Rightarrow> Inl KeyError)"

text \<open>The instant of an aware \<open>datetime\<close>, in microseconds, for the comparison of two
  aware values.\<close>

definition utc_instant :: "datetime \<Rightarrow> int \<Rightarrow> int" where
  "utc_instant dt offset = toordinal (dt_date dt) * 86400000000 + dt_micros dt - offset"

definition naive_less :: "datetime \<Rightarrow> datetime \<Rightarrow> bool" where
  "naive_less a b =
     (date_less (dt_date a) (dt_date b)
      \<or> (dt_date a = dt_date b \<and> dt_micros a < dt_micros b))"

text \<open>
  \<open>a > b\<close> for the values that the scan compares. Two dates are ordered, and so are two
  naive or two aware \<open>datetime\<close> values; a \<open>date\<close> with a \<open>datetime\<close>, and a naive with an
  aware \<open>datetime\<close>, raise \<open>TypeError\<close>.
\<close>

definition py_gt :: "pyval \<Rightarrow> pyval \<Rightarrow> py_error + bool" where
  "py_gt a b =
     (case (a, b) of
        (PyDate x, PyDate y) \<Rightarrow> Inr (date_less y x)
      | (PyDateTime x, PyDateTime y) \<Rightarrow>
          (case (dt_utcoffset x, dt_utcoffset y) of
             (None, None) \<Rightarrow> Inr (naive_less y x)
           | (Some ox, Some oy) \<Rightarrow> Inr (utc_instant y oy < utc_instant x ox)
           | _ \<Rightarrow> Inl TypeError)
      | _ \<Rightarrow> Inl TypeError)"

text \<open>\<open>(a - b).days\<close> for a date \<open>a\<close>: the difference of two dates is a \<open>timedelta\<close>, and a
  \<open>datetime\<close> cannot be subtracted from a \<open>date\<close>.\<close>

definition date_minus_days :: "date \<Rightarrow> pyval \<Rightarrow> py_error + int" where
  "date_minus_days a b = (case b of PyDate y \<Rightarrow> Inr (days_between a y) | _ \<Rightarrow> Inl TypeError)"

text \<open>The dict \<open>latest_test\<close> of the scan; its date is the \<open>date\<close> or \<open>datetime\<close> of the
  record it was taken from.\<close>

record latest_test =
  l_date :: pyval
  l_value :: "string option"
  l_hospital :: "string option"

text \<open>The dict that \<open>detect_duplicate\<close> returns. A field is \<open>None\<close> when the dict has no
  such key; \<open>original_value\<close> may be present and hold \<open>None\<close>.\<close>

record assessment =
  is_duplicate :: bool
  res_test_name :: string
  original_date :: "pyval option"
  original_value :: "string option option"
  days_since :: "int option"
  validity_period :: "int option"
  days_remaining :: "int option"
  potential_savings :: int
  message :: string

section \<open>Formatting numbers\<close>

fun str_nat :: "nat \<Rightarrow> string" where
  "str_nat n = (if n < 10 then [ascii_digits ! n]
                else str_nat (n div 10) @ [ascii_digits ! (n mod 10)])"

declare str_nat.simps [simp del]

text \<open>\<open>str(i)\<close>, as an f-string writes an integer.\<close>

definition str_int :: "int \<Rightarrow> string" where
  "str_int i = (if i < 0 then CHR ''-'' # str_nat (nat (- i)) else str_nat (nat i))"

text \<open>A comma after every third digit, counted from the right; the digits come in
  reversed.\<close>

fun group3 :: "string \<Rightarrow> string" where
  "group3 (a # b # c # d # rest) = a # b # c # CHR '','' # group3 (d # rest)"
| "group3 s = s"

text \<open>The format \<open>,.0f\<close> of an integer (one that a float holds exactly, as every cost of
  the table is).\<close>

definition format_thousands :: "int \<Rightarrow> string" where
  "format_thousands i =
     (if i < 0 then CHR ''-'' # rev (group3 (rev (str_nat (nat (- i)))))
      else rev (group3 (rev (str_nat (nat i)))))"

text \<open>The warning sign with its variation selector and the rupee sign, in UTF-8.\<close>

definition warning_sign :: string where
  "warning_sign = [CHR 0xE2, CHR 0x9A, CHR 0xA0, CHR 0xEF, CHR 0xB8, CHR 0x8F]"

definition rupee_sign :: string where
  "rupee_sign = [CHR 0xE2, CHR 0x82, CHR 0xB9]"

definition duplicate_message :: "string \<Rightarrow> int \<Rightarrow> int \<Rightarrow> int \<Rightarrow> string" where
  "duplicate_message normalized_name days validity_days savings =
     warning_sign @ '' Duplicate Alert: '' @ normalized_name @ '' was done '' @ str_int days
       @ '' days ago. '' @ ''This test is typically valid for '' @ str_int validity_days
       @ '' days. '' @ ''You could save '' @ rupee_sign @ format_thousands savings
       @ '' by using the previous result.''"

definition recommend_message :: "string \<Rightarrow> int \<Rightarrow> int \<Rightarrow> string" where
  "recommend_message normalized_name days validity_days =
     ''Previous '' @ normalized_name @ '' was '' @ str_int days @ '' days ago (validity: ''
       @ str_int validity_days @ '' days). New test recommended.''"

section \<open>Costs, validity and the duplicate resolver\<close>

definition calculate_savings :: "string \<Rightarrow> int" where
  "calculate_savings name =
     (let normalized_name = normalize_test_name name
      in dict_get (map_of INDIAN_TEST_COSTS normalized_name) 500)"

definition get_test_cost :: "string \<Rightarrow> int" where
  "get_test_cost name =
     (let normalized_name = normalize_test_name name
      in dict_get (map_of INDIAN_TEST_COSTS normalized_name) 500)"

text \<open>The default, \<open>VALIDITY_PERIODS["default"]\<close>, is read before \<open>get\<close> is called.\<close>
definition get_validity_period :: "string \<Rightarrow> py_error + int" where
  "get_validity_period name =
     (let normalized_name = normalize_test_name name
      in case dict_index VALIDITY_PERIODS ''default'' of
           Inl e \<Rightarrow> Inl e
         | Inr fallback \<Rightarrow> Inr (dict_get (map_of VALIDITY_PERIODS normalized_name) fallback))"

text \<open>The date of a record as the \<open>try\<close> block reads it: parsed from the first ten
  characters of a string, taken as it is from an instance of \<open>date\<close>, which a
  \<open>datetime\<close> is too; \<open>Inr None\<close> is the \<open>continue\<close> of any other value.\<close>
definition hist_date_of :: "pyval \<Rightarrow> py_error + pyval option" where
  "hist_date_of hist_date_str =
     (case hist_date_str of
        PyStr s \<Rightarrow>
          (case strptime_ymd (take 10 s) of Inl e \<Rightarrow> Inl e | Inr d \<Rightarrow> Inr (Some (PyDate d)))
      | PyDate d \<Rightarrow> Inr (Some (PyDate d))
      | PyDateTime dt \<Rightarrow> Inr (Some (PyDateTime dt))
      | _ \<Rightarrow> Inr None)"

text \<open>The body of the \<open>try\<close> block: what \<open>latest_test\<close> is after the record, or the
  exception that the parse or the comparison of the two dates raises.\<close>
definition try_record :: "latest_test option \<Rightarrow> test_record \<Rightarrow> py_error + latest_test option" where
  "try_record latest t =
     (case hist_date_of (dict_get (test_date t) (PyStr [])) of
        Inl e \<Rightarrow> Inl e
      | Inr None \<Rightarrow> Inr latest
      | Inr (Some hist_date) \<Rightarrow>
          (case (case latest of None \<Rightarrow> Inr True | Some l \<Rightarrow> py_gt hist_date (l_date l)) of
             Inl e \<Rightarrow> Inl e
           | Inr is_later \<Rightarrow>
               Inr (if is_later
                    then Some \<lparr>l_date = hist_date, l_value = test_value t,
                               l_hospital = hospital_name t\<rparr>
                    else latest)))"

text \<open>The loop over the history, with \<open>latest_test\<close> as its state. The \<open>except\<close> clause
  takes \<open>ValueError\<close> and \<open>TypeError\<close> and goes on with the next record.\<close>
fun find_latest ::
  "string \<Rightarrow> latest_test option \<Rightarrow> test_record list \<Rightarrow> py_error + latest_test option" where
  "find_latest normalized_name latest [] = Inr latest"
| "find_latest normalized_name latest (t # ts) =
     (if normalize_test_name (dict_get (test_name t) []) = normalized_name
      then (case try_record latest t of
              Inl e \<Rightarrow>
                (if e = ValueError \<or> e = TypeError
                 then find_latest normalized_name latest ts else Inl e)
            | Inr latest' \<Rightarrow> find_latest normalized_name latest' ts)
      else find_latest normalized_name latest ts)"

text \<open>The days since the latest test are computed after the loop, outside the \<open>try\<close>
  block: an exception there leaves the function. The request date is a \<open>date\<close>, as
  the signature says and as the caller passes it.\<close>
definition detect_duplicate ::
  "string \<Rightarrow> date \<Rightarrow> test_record list \<Rightarrow> py_error + assessment" where
  "detect_duplicate name request_date test_history =
     (let normalized_name = normalize_test_name name
      in case dict_index VALIDITY_PERIODS ''default'' of
        Inl e \<Rightarrow> Inl e
      | Inr fallback \<Rightarrow>
          (let validity_days = dict_get (map_of VALIDITY_PERIODS normalized_name) fallback
           in case find_latest normalized_name None test_history of
             Inl e \<Rightarrow> Inl e
           | Inr None \<Rightarrow>
               Inr \<lparr>is_duplicate = False, res_test_name = normalized_name,
                    original_date = None, original_value = None, days_since = None,
                    validity_period = None, days_remaining = None,
                    potential_savings = 0, message = ''No previous test found''\<rparr>
           | Inr (Some latest) \<Rightarrow>
               (case date_minus_days request_date (l_date latest) of
                  Inl e \<Rightarrow> Inl e
                | Inr days \<Rightarrow>
                    (if days \<le> validity_days
                     then (let savings = calculate_savings normalized_name
                           in Inr \<lparr>is_duplicate = True, res_test_name = normalized_name,
                                   original_date = Some (l_date latest),
                                   original_value = Some (l_value latest),
                                   days_since = Some days,
                                   validity_period = Some validity_days,
                                   days_remaining = Some (validity_days - days),
                                   potential_savings = savings,
                                   message = duplicate_message normalized_name days
                                               validity_days savings\<rparr>)
                     else Inr \<lparr>is_duplicate = False, res_test_name = normalized_name,
                               original_date = Some (l_date latest),
                               original_value = None,
                               days_since = Some days,
                               validity_period = Some validity_days,
                               days_remaining = None,
                               potential_savings = 0,
                               message = recommend_message normalized_name days
                                           validity_days\<rparr>))))"

section \<open>The demo-mode agent\<close>

text \<open>The methods of \<open>MockReportIntelligenceAgent\<close>; the module imports the three tables
  of the real agent.\<close>

text \<open>\<open>_normalize_test_name\<close> of \<open>MockReportIntelligenceAgent\<close>.\<close>

definition mock_normalize_test_name :: "string \<Rightarrow> string" where
  "mock_normalize_test_name name =
     (if name = [] then ''Unknown Test''
      else let lower_name = py_strip (py_lower name) in
        case map_of TEST_NAME_ALIASES lower_name of
          Some canonical \<Rightarrow> canonical
        | None \<Rightarrow>
            (case find (\<lambda>standard_name. lower_name = py_lower standard_name)
                       (map fst INDIAN_TEST_COSTS) of
               Some standard_name \<Rightarrow> standard_name
             | None \<Rightarrow> py_title (py_strip name)))"

definition mock_calculate_savings :: "string \<Rightarrow> int" where
  "mock_calculate_savings name =
     (let normalized_name = mock_normalize_test_name name
      in dict_get (map_of INDIAN_TEST_COSTS normalized_name) 500)"

definition mock_get_test_cost :: "string \<Rightarrow> int" where
  "mock_get_test_cost name =
     (let normalized_name = mock_normalize_test_name name
      in dict_get (map_of INDIAN_TEST_COSTS normalized_name) 500)"

definition mock_get_validity_period :: "string \<Rightarrow> py_error + int" where
  "mock_get_validity_period name =
     (let normalized_name = mock_normalize_test_name name
      in case dict_index VALIDITY_PERIODS ''default'' of
           Inl e \<Rightarrow> Inl e
         | Inr fallback \<Rightarrow> Inr (dict_get (map_of VALIDITY_PERIODS normalized_name) fallback))"

definition mock_hist_date_of :: "pyval \<Rightarrow> py_error + pyval option" where
  "mock_hist_date_of hist_date_str =
     (case hist_date_str of
        PyStr s \<Rightarrow>
          (case strptime_ymd (take 10 s) of Inl e \<Rightarrow> Inl e | Inr d \<Rightarrow> Inr (Some (PyDate d)))
      | PyDate d \<Rightarrow> Inr (Some (PyDate d))
      | PyDateTime dt \<Rightarrow> Inr (Some (PyDateTime dt))
      | _ \<Rightarrow> Inr None)"

definition mock_try_record :: "latest_test option \<Rightarrow> test_record \<Rightarrow> py_error + latest_test option" where
  "mock_try_record latest t =
     (case mock_hist_date_of (dict_get (test_date t) (PyStr [])) of
        Inl e \<Rightarrow> Inl e
      | Inr None \<Rightarrow> Inr latest
      | Inr (Some hist_date) \<Rightarrow>
          (case (case latest of None \<Rightarrow> Inr True | Some l \<Rightarrow> py_gt hist_date (l_date l)) of
             Inl e \<Rightarrow> Inl e
           | Inr is_later \<Rightarrow>
               Inr (if is_later
                    then Some \<lparr>l_date = hist_date, l_value = test_value t,
                               l_hospital = hospital_name t\<rparr>
                    else latest)))"

fun mock_find_latest ::
  "string \<Rightarrow> latest_test option \<Rightarrow> test_record list \<Rightarrow> py_error + latest_test option" where
  "mock_find_latest normalized_name latest [] = Inr latest"
| "mock_find_latest normalized_name latest (t # ts) =
     (if mock_normalize_test_name (dict_get (test_name t) []) = normalized_name
      then (case mock_try_record latest t of
              Inl e \<Rightarrow>
                (if e = ValueError \<or> e = TypeError
                 then mock_find_latest normalized_name latest ts else Inl e)
            | Inr latest' \<Rightarrow> mock_find_latest normalized_name latest' ts)
      else mock_find_latest normalized_name latest ts)"

definition mock_detect_duplicate ::
  "string \<Rightarrow> date \<Rightarrow> test_record list \<Rightarrow> py_error + assessment" where
  "mock_detect_duplicate name request_date test_history =
     (let normalized_name = mock_normalize_test_name name
      in case dict_index VALIDITY_PERIODS ''default'' of
        Inl e \<Rightarrow> Inl e
      | Inr fallback \<Rightarrow>
          (let validity_days = dict_get (map_of VALIDITY_PERIODS normalized_name) fallback
           in case mock_find_latest normalized_name None test_history of
             Inl e \<Rightarrow> Inl e
           | Inr None \<Rightarrow>
               Inr \<lparr>is_duplicate = False, res_test_name = normalized_name,
                    original_date = None, original_value = None, days_since = None,
                    validity_period = None, days_remaining = None,
                    potential_savings = 0, message = ''No previous test found''\<rparr>
           | Inr (Some latest) \<Rightarrow>
               (case date_minus_days request_date (l_date latest) of
                  Inl e \<Rightarrow> Inl e
                | Inr days \<Rightarrow>
                    (if days \<le> validity_days
                     then (let savings = mock_calculate_savings normalized_name
                           in Inr \<lparr>is_duplicate = True, res_test_name = normalized_name,
                                   original_date = Some (l_date latest),
                                   original_value = Some (l_value latest),
                                   days_since = Some days,
                                   validity_period = Some validity_days,
                                   days_remaining = Some (validity_days - days),
                                   potential_savings = savings,
                                   message = duplicate_message normalized_name days
                                               validity_days savings\<rparr>)
                     else Inr \<lparr>is_duplicate = False, res_test_name = normalized_name,
                               original_date = Some (l_date latest),
                               original_value = None,
                               days_since = Some days,
                               validity_period = Some validity_days,
                               days_remaining = None,
                               potential_savings = 0,
                               message = recommend_message normalized_name days
                                           validity_days\<rparr>))))"

section \<open>The selection, stated directly\<close>

text \<open>The date that the scan reads from a record: \<open>None\<close> for a record that the scan
  skips, because its date is neither a string nor a date or because the string does
  not parse.\<close>

definition record_date :: "test_record \<Rightarrow> pyval option" where
  "record_date t =
     (case dict_get (test_date t) (PyStr []) of
        PyStr s \<Rightarrow>
          (case strptime_ymd (take 10 s) of Inl e \<Rightarrow> None | Inr d \<Rightarrow> Some (PyDate d))
      | PyDate d \<Rightarrow> Some (PyDate d)
      | PyDateTime dt \<Rightarrow> Some (PyDateTime dt)
      | _ \<Rightarrow> None)"

text \<open>A record survives the scan for a canonical name when its name is normalized to
  that name and its date can be read.\<close>

definition survives :: "string \<Rightarrow> test_record \<Rightarrow> bool" where
  "survives canonical t =
     (normalize_test_name (dict_get (test_name t) []) = canonical \<and> record_date t \<noteq> None)"

text \<open>The date of a record when it is a \<open>date\<close> and not a \<open>datetime\<close>: read from a string
  or given as a \<open>date\<close>.\<close>

definition plain_date :: "test_record \<Rightarrow> date option" where
  "plain_date t = (case record_date t of Some (PyDate d) \<Rightarrow> Some d | _ \<Rightarrow> None)"

text \<open>No record of the canonical name has a \<open>datetime\<close> as its date.\<close>

definition no_datetime :: "string \<Rightarrow> test_record list \<Rightarrow> bool" where
  "no_datetime canonical test_history =
     list_all (\<lambda>t. if survives canonical t then plain_date t \<noteq> None else True) test_history"

text \<open>The dates of the surviving records, in the order of the history.\<close>

definition candidate_dates :: "string \<Rightarrow> test_record list \<Rightarrow> date list" where
  "candidate_dates canonical test_history =
     List.map_filter plain_date (filter (survives canonical) test_history)"

text \<open>The most recent surviving record with its date, and among the records of that date
  the one that comes first in the history: a record gives way to a later one only when
  the later one has a strictly greater date.\<close>

fun first_latest :: "string \<Rightarrow> test_record list \<Rightarrow> (date \<times> test_record) option" where
  "first_latest canonical [] = None"
| "first_latest canonical (t # ts) =
     (if normalize_test_name (dict_get (test_name t) []) = canonical
      then (case plain_date t of
              None \<Rightarrow> first_latest canonical ts
            | Some d \<Rightarrow>
                (case first_latest canonical ts of
                   None \<Rightarrow> Some (d, t)
                 | Some (d', t') \<Rightarrow> if date_less d d' then Some (d', t') else Some (d, t)))
      else first_latest canonical ts)"

text \<open>The result of \<open>detect_duplicate\<close> when no record survives.\<close>

definition no_previous_test :: "string \<Rightarrow> assessment" where
  "no_previous_test canonical =
     \<lparr>is_duplicate = False, res_test_name = canonical, original_date = None,
      original_value = None, days_since = None, validity_period = None,
      days_remaining = None, potential_savings = 0, message = ''No previous test found''\<rparr>"

text \<open>The dict that the scan builds from a record and its date, and the dict that the
  scan holds after the records of a list, given what it held before and the most recent
  surviving record of the list.\<close>

definition mk_latest :: "date \<Rightarrow> test_record \<Rightarrow> latest_test" where
  "mk_latest d t =
     \<lparr>l_date = PyDate d, l_value = test_value t, l_hospital = hospital_name t\<rparr>"

definition keep_latest ::
  "latest_test option \<Rightarrow> (date \<times> test_record) option \<Rightarrow> latest_test option" where
  "keep_latest held found =
     (case found of
        None \<Rightarrow> held
      | Some (d, t) \<Rightarrow>
          (case held of
             None \<Rightarrow> Some (mk_latest d t)
           | Some l \<Rightarrow>
               (case l_date l of
                  PyDate dl \<Rightarrow> if date_less dl d then Some (mk_latest d t) else Some l
                | _ \<Rightarrow> Some l)))"

section \<open>Records for the examples\<close>

text \<open>A history record of the test \<open>HbA1c\<close> with a given date and value, as the test
  suite writes them.\<close>

definition hba1c_record :: "pyval \<Rightarrow> string \<Rightarrow> test_record" where
  "hba1c_record d v =
     \<lparr>test_name = Some ''HbA1c'', test_date = Some d, test_value = Some v,
      hospital_name = None\<rparr>"

section \<open>Evaluating the string functions\<close>

text \<open>The character functions at each printable ASCII character, the tab and the line
  feed, for the evaluation of the normalizer at a given name.\<close>

lemma lower_char_ascii:
  "lower_char CHR '' '' = CHR '' ''" "lower_char CHR 0x21 = CHR 0x21"
  "lower_char CHR 0x22 = CHR 0x22" "lower_char CHR 0x23 = CHR 0x23"
  "lower_char CHR 0x24 = CHR 0x24" "lower_char CHR 0x25 = CHR 0x25"
  "lower_char CHR 0x26 = CHR 0x26" "lower_char CHR 0x27 = CHR 0x27"
  "lower_char CHR 0x28 = CHR 0x28" "lower_char CHR 0x29 = CHR 0x29"
  "lower_char CHR 0x2A = CHR 0x2A" "lower_char CHR 0x2B = CHR 0x2B"
  "lower_char CHR '','' = CHR '',''" "lower_char CHR ''-'' = CHR ''-''"
  "lower_char CHR ''.'' = CHR ''.''" "lower_char CHR 0x2F = CHR 0x2F"
  "lower_char CHR ''0'' = CHR ''0''" "lower_char CHR ''1'' = CHR ''1''"
  "lower_char CHR ''2'' = CHR ''2''" "lower_char CHR ''3'' = CHR ''3''"
  "lower_char CHR ''4'' = CHR ''4''" "lower_char CHR ''5'' = CHR ''5''"
  "lower_char CHR ''6'' = CHR ''6''" "lower_char CHR ''7'' = CHR ''7''"
  "lower_char CHR ''8'' = CHR ''8''" "lower_char CHR ''9'' = CHR ''9''"
  "lower_char CHR '':'' = CHR '':''" "lower_char CHR 0x3B = CHR 0x3B"
  "lower_char CHR 0x3C = CHR 0x3C" "lower_char CHR 0x3D = CHR 0x3D"
  "lower_char CHR 0x3E = CHR 0x3E" "lower_char CHR 0x3F = CHR 0x3F"
  "lower_char CHR 0x40 = CHR 0x40" "lower_char CHR ''A'' = CHR ''a''"
  "lower_char CHR ''B'' = CHR ''b''" "lower_char CHR ''C'' = CHR ''c''"
  "lower_char CHR ''D'' = CHR ''d''" "lower_char CHR ''E'' = CHR ''e''"
  "lower_char CHR ''F'' = CHR ''f''" "lower_char CHR ''G'' = CHR ''g''"
  "lower_char CHR ''H'' = CHR ''h''" "lower_char CHR ''I'' = CHR ''i''"
  "lower_char CHR ''J'' = CHR ''j''" "lower_char CHR ''K'' = CHR ''k''"
  "lower_char CHR ''L'' = CHR ''l''" "lower_char CHR ''M'' = CHR ''m''"
  "lower_char CHR ''N'' = CHR ''n''" "lower_char CHR ''O'' = CHR ''o''"
  "lower_char CHR ''P'' = CHR ''p''" "lower_char CHR ''Q'' = CHR ''q''"
  "lower_char CHR ''R'' = CHR ''r''" "lower_char CHR ''S'' = CHR ''s''"
  "lower_char CHR ''T'' = CHR ''t''" "lower_char CHR ''U'' = CHR ''u''"
  "lower_char CHR ''V'' = CHR ''v''" "lower_char CHR ''W'' = CHR ''w''"
  "lower_char CHR ''X'' = CHR ''x''" "lower_char CHR ''Y'' = CHR ''y''"
  "lower_char CHR ''Z'' = CHR ''z''" "lower_char CHR 0x5B = CHR 0x5B"
  "lower_char CHR 0x5C = CHR 0x5C" "lower_char CHR 0x5D = CHR 0x5D"
  "lower_char CHR 0x5E = CHR 0x5E" "lower_char CHR 0x5F = CHR 0x5F"
  "lower_char CHR 0x60 = CHR 0x60" "lower_char CHR ''a'' = CHR ''a''"
  "lower_char CHR ''b'' = CHR ''b''" "lower_char CHR ''c'' = CHR ''c''"
  "lower_char CHR ''d'' = CHR ''d''" "lower_char CHR ''e'' = CHR ''e''"
  "lower_char CHR ''f'' = CHR ''f''" "lower_char CHR ''g'' = CHR ''g''"
  "lower_char CHR ''h'' = CHR ''h''" "lower_char CHR ''i'' = CHR ''i''"
  "lower_char CHR ''j'' = CHR ''j''" "lower_char CHR ''k'' = CHR ''k''"
  "lower_char CHR ''l'' = CHR ''l''" "lower_char CHR ''m'' = CHR ''m''"
  "lower_char CHR ''n'' = CHR ''n''" "lower_char CHR ''o'' = CHR ''o''"
  "lower_char CHR ''p'' = CHR ''p''" "lower_char CHR ''q'' = CHR ''q''"
  "lower_char CHR ''r'' = CHR ''r''" "lower_char CHR ''s'' = CHR ''s''"
  "lower_char CHR ''t'' = CHR ''t''" "lower_char CHR ''u'' = CHR ''u''"
  "lower_char CHR ''v'' = CHR ''v''" "lower_char CHR ''w'' = CHR ''w''"
  "lower_char CHR ''x'' = CHR ''x''" "lower_char CHR ''y'' = CHR ''y''"
  "lower_char CHR ''z'' = CHR ''z''" "lower_char CHR 0x7B = CHR 0x7B"
  "lower_char CHR 0x7C = CHR 0x7C" "lower_char CHR 0x7D = CHR 0x7D"
  "lower_char CHR 0x7E = CHR 0x7E" "lower_char CHR 0x09 = CHR 0x09"
  "lower_char CHR 0x0A = CHR 0x0A"
  by (simp_all add: lower_char_def ascii_uppercase_def ascii_lowercase_def)

lemma upper_char_ascii:
  "upper_char CHR '' '' = CHR '' ''" "upper_char CHR 0x21 = CHR 0x21"
  "upper_char CHR 0x22 = CHR 0x22" "upper_char CHR 0x23 = CHR 0x23"
  "upper_char CHR 0x24 = CHR 0x24" "upper_char CHR 0x25 = CHR 0x25"
  "upper_char CHR 0x26 = CHR 0x26" "upper_char CHR 0x27 = CHR 0x27"
  "upper_char CHR 0x28 = CHR 0x28" "upper_char CHR 0x29 = CHR 0x29"
  "upper_char CHR 0x2A = CHR 0x2A" "upper_char CHR 0x2B = CHR 0x2B"
  "upper_char CHR '','' = CHR '',''" "upper_char CHR ''-'' = CHR ''-''"
  "upper_char CHR ''.'' = CHR ''.''" "upper_char CHR 0x2F = CHR 0x2F"
  "upper_char CHR ''0'' = CHR ''0''" "upper_char CHR ''1'' = CHR ''1''"
  "upper_char CHR ''2'' = CHR ''2''" "upper_char CHR ''3'' = CHR ''3''"
  "upper_char CHR ''4'' = CHR ''4''" "upper_char CHR ''5'' = CHR ''5''"
  "upper_char CHR ''6'' = CHR ''6''" "upper_char CHR ''7'' = CHR ''7''"
  "upper_char CHR ''8'' = CHR ''8''" "upper_char CHR ''9'' = CHR ''9''"
  "upper_char CHR '':'' = CHR '':''" "upper_char CHR 0x3B = CHR 0x3B"
  "upper_char CHR 0x3C = CHR 0x3C" "upper_char CHR 0x3D = CHR 0x3D"
  "upper_char CHR 0x3E = CHR 0x3E" "upper_char CHR 0x3F = CHR 0x3F"
  "upper_char CHR 0x40 = CHR 0x40" "upper_char CHR ''A'' = CHR ''A''"
  "upper_char CHR ''B'' = CHR ''B''" "upper_char CHR ''C'' = CHR ''C''"
  "upper_char CHR ''D'' = CHR ''D''" "upper_char CHR ''E'' = CHR ''E''"
  "upper_char CHR ''F'' = CHR ''F''" "upper_char CHR ''G'' = CHR ''G''"
  "upper_char CHR ''H'' = CHR ''H''" "upper_char CHR ''I'' = CHR ''I''"
  "upper_char CHR ''J'' = CHR ''J''" "upper_char CHR ''K'' = CHR ''K''"
  "upper_char CHR ''L'' = CHR ''L''" "upper_char CHR ''M'' = CHR ''M''"
  "upper_char CHR ''N'' = CHR ''N''" "upper_char CHR ''O'' = CHR ''O''"
  "upper_char CHR ''P'' = CHR ''P''" "upper_char CHR ''Q'' = CHR ''Q''"
  "upper_char CHR ''R'' = CHR ''R''" "upper_char CHR ''S'' = CHR ''S''"
  "upper_char CHR ''T'' = CHR ''T''" "upper_char CHR ''U'' = CHR ''U''"
  "upper_char CHR ''V'' = CHR ''V''" "upper_char CHR ''W'' = CHR ''W''"
  "upper_char CHR ''X'' = CHR ''X''" "upper_char CHR ''Y'' = CHR ''Y''"
  "upper_char CHR ''Z'' = CHR ''Z''" "upper_char CHR 0x5B = CHR 0x5B"
  "upper_char CHR 0x5C = CHR 0x5C" "upper_char CHR 0x5D = CHR 0x5D"
  "upper_char CHR 0x5E = CHR 0x5E" "upper_char CHR 0x5F = CHR 0x5F"
  "upper_char CHR 0x60 = CHR 0x60" "upper_char CHR ''a'' = CHR ''A''"
  "upper_char CHR ''b'' = CHR ''B''" "upper_char CHR ''c'' = CHR ''C''"
  "upper_char CHR ''d'' = CHR ''D''" "upper_char CHR ''e'' = CHR ''E''"
  "upper_char CHR ''f'' = CHR ''F''" "upper_char CHR ''g'' = CHR ''G''"
  "upper_char CHR ''h'' = CHR ''H''" "upper_char CHR ''i'' = CHR ''I''"
  "upper_char CHR ''j'' = CHR ''J''" "upper_char CHR ''k'' = CHR ''K''"
  "upper_char CHR ''l'' = CHR ''L''" "upper_char CHR ''m'' = CHR ''M''"
  "upper_char CHR ''n'' = CHR ''N''" "upper_char CHR ''o'' = CHR ''O''"
  "upper_char CHR ''p'' = CHR ''P''" "upper_char CHR ''q'' = CHR ''Q''"
  "upper_char CHR ''r'' = CHR ''R''" "upper_char CHR ''s'' = CHR ''S''"
  "upper_char CHR ''t'' = CHR ''T''" "upper_char CHR ''u'' = CHR ''U''"
  "upper_char CHR ''v'' = CHR ''V''" "upper_char CHR ''w'' = CHR ''W''"
  "upper_char CHR ''x'' = CHR ''X''" "upper_char CHR ''y'' = CHR ''Y''"
  "upper_char CHR ''z'' = CHR ''Z''" "upper_char CHR 0x7B = CHR 0x7B"
  "upper_char CHR 0x7C = CHR 0x7C" "upper_char CHR 0x7D = CHR 0x7D"
  "upper_char CHR 0x7E = CHR 0x7E" "upper_char CHR 0x09 = CHR 0x09"
  "upper_char CHR 0x0A = CHR 0x0A"
  by (simp_all add: upper_char_def ascii_uppercase_def ascii_lowercase_def)

lemma is_cased_ascii:
  "\<not> is_cased CHR '' ''" "\<not> is_cased CHR 0x21"
  "\<not> is_cased CHR 0x22" "\<not> is_cased CHR 0x23"
  "\<not> is_cased CHR 0x24" "\<not> is_cased CHR 0x25"
  "\<not> is_cased CHR 0x26" "\<not> is_cased CHR 0x27"
  "\<not> is_cased CHR 0x28" "\<not> is_cased CHR 0x29"
  "\<not> is_cased CHR 0x2A" "\<not> is_cased CHR 0x2B"
  "\<not> is_cased CHR '',''" "\<not> is_cased CHR ''-''"
  "\<not> is_cased CHR ''.''" "\<not> is_cased CHR 0x2F"
  "\<not> is_cased CHR ''0''" "\<not> is_cased CHR ''1''"
  "\<not> is_cased CHR ''2''" "\<not> is_cased CHR ''3''"
  "\<not> is_cased CHR ''4''" "\<not> is_cased CHR ''5''"
  "\<not> is_cased CHR ''6''" "\<not> is_cased CHR ''7''"
  "\<not> is_cased CHR ''8''" "\<not> is_cased CHR ''9''"
  "\<not> is_cased CHR '':''" "\<not> is_cased CHR 0x3B"
  "\<not> is_cased CHR 0x3C" "\<not> is_cased CHR 0x3D"
  "\<not> is_cased CHR 0x3E" "\<not> is_cased CHR 0x3F"
  "\<not> is_cased CHR 0x40" "is_cased CHR ''A''"
  "is_cased CHR ''B''" "is_cased CHR ''C''"
  "is_cased CHR ''D''" "is_cased CHR ''E''"
  "is_cased CHR ''F''" "is_cased CHR ''G''"
  "is_cased CHR ''H''" "is_cased CHR ''I''"
  "is_cased CHR ''J''" "is_cased CHR ''K''"
  "is_cased CHR ''L''" "is_cased CHR ''M''"
  "is_cased CHR ''N''" "is_cased CHR ''O''"
  "is_cased CHR ''P''" "is_cased CHR ''Q''"
  "is_cased CHR ''R''" "is_cased CHR ''S''"
  "is_cased CHR ''T''" "is_cased CHR ''U''"
  "is_cased CHR ''V''" "is_cased CHR ''W''"
  "is_cased CHR ''X''" "is_cased CHR ''Y''"
  "is_cased CHR ''Z''" "\<not> is_cased CHR 0x5B"
  "\<not> is_cased CHR 0x5C" "\<not> is_cased CHR 0x5D"
  "\<not> is_cased CHR 0x5E" "\<not> is_cased CHR 0x5F"
  "\<not> is_cased CHR 0x60" "is_cased CHR ''a''"
  "is_cased CHR ''b''" "is_cased CHR ''c''"
  "is_cased CHR ''d''" "is_cased CHR ''e''"
  "is_cased CHR ''f''" "is_cased CHR ''g''"
  "is_cased CHR ''h''" "is_cased CHR ''i''"
  "is_cased CHR ''j''" "is_cased CHR ''k''"
  "is_cased CHR ''l''" "is_cased CHR ''m''"
  "is_cased CHR ''n''" "is_cased CHR ''o''"
  "is_cased CHR ''p''" "is_cased CHR ''q''"
  "is_cased CHR ''r''" "is_cased CHR ''s''"
  "is_cased CHR ''t''" "is_cased CHR ''u''"
  "is_cased CHR ''v''" "is_cased CHR ''w''"
  "is_cased CHR ''x''" "is_cased CHR ''y''"
  "is_cased CHR ''z''" "\<not> is_cased CHR 0x7B"
  "\<not> is_cased CHR 0x7C" "\<not> is_cased CHR 0x7D"
  "\<not> is_cased CHR 0x7E" "\<not> is_cased CHR 0x09"
  "\<not> is_cased CHR 0x0A"
  by (simp_all add: is_cased_def is_upper_def is_lower_def ascii_uppercase_def ascii_lowercase_def)

lemma is_space_ascii:
  "is_space CHR '' ''" "\<not> is_space CHR 0x21"
  "\<not> is_space CHR 0x22" "\<not> is_space CHR 0x23"
  "\<not> is_space CHR 0x24" "\<not> is_space CHR 0x25"
  "\<not> is_space CHR 0x26" "\<not> is_space CHR 0x27"
  "\<not> is_space CHR 0x28" "\<not> is_space CHR 0x29"
  "\<not> is_space CHR 0x2A" "\<not> is_space CHR 0x2B"
  "\<not> is_space CHR '',''" "\<not> is_space CHR ''-''"
  "\<not> is_space CHR ''.''" "\<not> is_space CHR 0x2F"
  "\<not> is_space CHR ''0''" "\<not> is_space CHR ''1''"
  "\<not> is_space CHR ''2''" "\<not> is_space CHR ''3''"
  "\<not> is_space CHR ''4''" "\<not> is_space CHR ''5''"
  "\<not> is_space CHR ''6''" "\<not> is_space CHR ''7''"
  "\<not> is_space CHR ''8''" "\<not> is_space CHR ''9''"
  "\<not> is_space CHR '':''" "\<not> is_space CHR 0x3B"
  "\<not> is_space CHR 0x3C" "\<not> is_space CHR 0x3D"
  "\<not> is_space CHR 0x3E" "\<not> is_space CHR 0x3F"
  "\<not> is_space CHR 0x40" "\<not> is_space CHR ''A''"
  "\<not> is_space CHR ''B''" "\<not> is_space CHR ''C''"
  "\<not> is_space CHR ''D''" "\<not> is_space CHR ''E''"
  "\<not> is_space CHR ''F''" "\<not> is_space CHR ''G''"
  "\<not> is_space CHR ''H''" "\<not> is_space CHR ''I''"
  "\<not> is_space CHR ''J''" "\<not> is_space CHR ''K''"
  "\<not> is_space CHR ''L''" "\<not> is_space CHR ''M''"
  "\<not> is_space CHR ''N''" "\<not> is_space CHR ''O''"
  "\<not> is_space CHR ''P''" "\<not> is_space CHR ''Q''"
  "\<not> is_space CHR ''R''" "\<not> is_space CHR ''S''"
  "\<not> is_space CHR ''T''" "\<not> is_space CHR ''U''"
  "\<not> is_space CHR ''V''" "\<not> is_space CHR ''W''"
  "\<not> is_space CHR ''X''" "\<not> is_space CHR ''Y''"
  "\<not> is_space CHR ''Z''" "\<not> is_space CHR 0x5B"
  "\<not> is_space CHR 0x5C" "\<not> is_space CHR 0x5D"
  "\<not> is_space CHR 0x5E" "\<not> is_space CHR 0x5F"
  "\<not> is_space CHR 0x60" "\<not> is_space CHR ''a''"
  "\<not> is_space CHR ''b''" "\<not> is_space CHR ''c''"
  "\<not> is_space CHR ''d''" "\<not> is_space CHR ''e''"
  "\<not> is_space CHR ''f''" "\<not> is_space CHR ''g''"
  "\<not> is_space CHR ''h''" "\<not> is_space CHR ''i''"
  "\<not> is_space CHR ''j''" "\<not> is_space CHR ''k''"
  "\<not> is_space CHR ''l''" "\<not> is_space CHR ''m''"
  "\<not> is_space CHR ''n''" "\<not> is_space CHR ''o''"
  "\<not> is_space CHR ''p''" "\<not> is_space CHR ''q''"
  "\<not> is_space CHR ''r''" "\<not> is_space CHR ''s''"
  "\<not> is_space CHR ''t''" "\<not> is_space CHR ''u''"
  "\<not> is_space CHR ''v''" "\<not> is_space CHR ''w''"
  "\<not> is_space CHR ''x''" "\<not> is_space CHR ''y''"
  "\<not> is_space CHR ''z''" "\<not> is_space CHR 0x7B"
  "\<not> is_space CHR 0x7C" "\<not> is_space CHR 0x7D"
  "\<not> is_space CHR 0x7E" "is_space CHR 0x09"
  "is_space CHR 0x0A"
  by (simp_all add: is_space_def ascii_whitespace_def)

lemma py_lower_simps: "py_lower [] = []" "py_lower (c # cs) = lower_char c # py_lower cs"
  by (simp_all add: py_lower_def)

lemmas str_eval = py_lower_simps py_strip_def py_title_def
  lower_char_ascii upper_char_ascii is_cased_ascii is_space_ascii

text \<open>The loop over the keys of the cost table returns the first key whose lower case is
  the name looked up: a lookup in the keys paired with their lower case.\<close>

lemma find_by_lower:
  "find (\<lambda>standard_name. l = py_lower standard_name) ks =
     map_of (map (\<lambda>k. (py_lower k, k)) ks) l"
  by (induction ks) auto

lemma standard_lookup:
  "find (\<lambda>standard_name. l = py_lower standard_name) (map fst INDIAN_TEST_COSTS) =
     map_of
     [(''hba1c'', ''HbA1c''),
      (''lipid profile'', ''Lipid Profile''),
      (''cbc'', ''CBC''),
      (''complete blood count'', ''Complete Blood Count''),
      (''hemoglobin'', ''Hemoglobin''),
      (''thyroid panel'', ''Thyroid Panel''),
      (''tsh'', ''TSH''),
      (''t3'', ''T3''),
      (''t4'', ''T4''),
      (''liver function test'', ''Liver Function Test''),
      (''lft'', ''LFT''),
      (''kidney function test'', ''Kidney Function Test''),
      (''kft'', ''KFT''),
      (''creatinine'', ''Creatinine''),
      (''urea'', ''Urea''),
      (''blood sugar fasting'', ''Blood Sugar Fasting''),
      (''blood sugar pp'', ''Blood Sugar PP''),
      (''hba1c'', ''HBA1C''),
      (''fasting blood sugar'', ''Fasting Blood Sugar''),
      (''random blood sugar'', ''Random Blood Sugar''),
      (''uric acid'', ''Uric Acid''),
      (''vitamin d'', ''Vitamin D''),
      (''vitamin b12'', ''Vitamin B12''),
      (''iron studies'', ''Iron Studies''),
      (''ferritin'', ''Ferritin''),
      (''esr'', ''ESR''),
      (''crp'', ''CRP''),
      (''electrolytes'', ''Electrolytes''),
      (''calcium'', ''Calcium''),
      (''phosphorus'', ''Phosphorus''),
      (''magnesium'', ''Magnesium''),
      (''sodium'', ''Sodium''),
      (''potassium'', ''Potassium''),
      (''chloride'', ''Chloride''),
      (''ldl cholesterol'', ''LDL Cholesterol''),
      (''hdl cholesterol'', ''HDL Cholesterol''),
      (''triglycerides'', ''Triglycerides''),
      (''total cholesterol'', ''Total Cholesterol''),
      (''vldl'', ''VLDL''),
      (''prothrombin time'', ''Prothrombin Time''),
      (''pt inr'', ''PT INR''),
      (''aptt'', ''APTT''),
      (''d-dimer'', ''D-Dimer''),
      (''troponin'', ''Troponin''),
      (''bnp'', ''BNP''),
      (''psa'', ''PSA''),
      (''ca-125'', ''CA-125''),
      (''afp'', ''AFP''),
      (''cea'', ''CEA''),
      (''urine routine'', ''Urine Routine''),
      (''urine culture'', ''Urine Culture''),
      (''microalbumin'', ''Microalbumin''),
      (''24 hour urine protein'', ''24 Hour Urine Protein''),
      (''x-ray chest'', ''X-Ray Chest''),
      (''x-ray'', ''X-Ray''),
      (''ultrasound abdomen'', ''Ultrasound Abdomen''),
      (''ultrasound'', ''Ultrasound''),
      (''ecg'', ''ECG''),
      (''echo'', ''Echo''),
      (''echocardiography'', ''Echocardiography''),
      (''ct scan'', ''CT Scan''),
      (''mri'', ''MRI''),
      (''pet scan'', ''PET Scan''),
      (''mammography'', ''Mammography''),
      (''bone density'', ''Bone Density''),
      (''dexa scan'', ''DEXA Scan''),
      (''stool test'', ''Stool Test''),
      (''stool culture'', ''Stool Culture''),
      (''sputum test'', ''Sputum Test''),
      (''covid-19 rt-pcr'', ''COVID-19 RT-PCR''),
      (''dengue ns1'', ''Dengue NS1''),
      (''malaria test'', ''Malaria Test''),
      (''typhoid test'', ''Typhoid Test''),
      (''widal test'', ''Widal Test'')] l"
  (is "_ = map_of ?lowered l")
proof -
  have "map (\<lambda>k. (py_lower k, k)) (map fst INDIAN_TEST_COSTS) = ?lowered"
    by (simp add: INDIAN_TEST_COSTS_def str_eval)
  then show ?thesis
    by (simp only: find_by_lower)
qed

text \<open>A lookup in a table, one entry at a time, and the comparison of two strings, one
  character at a time.\<close>

lemma lookup_simps:
  "map_of [] l = None"
  "map_of ((k, v) # ps) l = (if l = k then Some v else map_of ps l)"
  by simp_all

lemma Cons_eq_if: "(x # xs = y # ys) = (if x = y then xs = ys else False)"
  by simp

lemmas normalize_eval = normalize_test_name_def Let_def standard_lookup str_eval
  TEST_NAME_ALIASES_def lookup_simps Cons_eq_if

lemma default_validity: "dict_index VALIDITY_PERIODS ''default'' = Inr 30"
  by (simp add: dict_index_def VALIDITY_PERIODS_def)

section \<open>Properties of the string functions\<close>

lemma uppercase_table:
  "\<forall>c \<in> set ascii_uppercase.
     \<not> is_space c \<and> is_cased c \<and> upper_char c = c
     \<and> lower_char (lower_char c) = lower_char c
     \<and> \<not> is_space (lower_char c) \<and> is_cased (lower_char c)"
  by (simp add: ascii_uppercase_def lower_char_ascii upper_char_ascii is_cased_ascii
        is_space_ascii)

lemma lowercase_table:
  "\<forall>c \<in> set ascii_lowercase.
     \<not> is_space c \<and> is_cased c \<and> lower_char c = c
     \<and> upper_char (upper_char c) = upper_char c \<and> lower_char (upper_char c) = c
     \<and> \<not> is_space (upper_char c) \<and> is_cased (upper_char c)"
  by (simp add: ascii_lowercase_def lower_char_ascii upper_char_ascii is_cased_ascii
        is_space_ascii)

lemma lower_char_other: "\<not> is_upper c \<Longrightarrow> lower_char c = c"
  by (simp add: lower_char_def is_upper_def ascii_uppercase_def ascii_lowercase_def)

lemma upper_char_other: "\<not> is_lower c \<Longrightarrow> upper_char c = c"
  by (simp add: upper_char_def is_lower_def ascii_uppercase_def ascii_lowercase_def)

lemma is_space_lower_char: "is_space (lower_char c) = is_space c"
  using uppercase_table lower_char_other by (cases "is_upper c") (auto simp: is_upper_def)

lemma is_space_upper_char: "is_space (upper_char c) = is_space c"
  using lowercase_table upper_char_other by (cases "is_lower c") (auto simp: is_lower_def)

lemma lower_char_idem: "lower_char (lower_char c) = lower_char c"
  using uppercase_table lower_char_other by (cases "is_upper c") (auto simp: is_upper_def)

lemma upper_char_idem: "upper_char (upper_char c) = upper_char c"
  using lowercase_table upper_char_other by (cases "is_lower c") (auto simp: is_lower_def)

lemma lower_upper_char: "lower_char (upper_char c) = lower_char c"
  using lowercase_table upper_char_other by (cases "is_lower c") (auto simp: is_lower_def)

lemma is_cased_lower_char: "is_cased (lower_char c) = is_cased c"
  using uppercase_table lower_char_other by (cases "is_upper c") (auto simp: is_upper_def)

lemma is_cased_upper_char: "is_cased (upper_char c) = is_cased c"
  using lowercase_table upper_char_other by (cases "is_lower c") (auto simp: is_lower_def)

lemmas char_props = is_space_lower_char is_space_upper_char lower_char_idem upper_char_idem
  lower_upper_char is_cased_lower_char is_cased_upper_char

lemma is_space_title_from: "map is_space (title_from p s) = map is_space s"
  by (induction s arbitrary: p) (simp_all add: char_props)

lemma py_lower_title_from: "py_lower (title_from p s) = py_lower s"
  by (induction s arbitrary: p) (simp_all add: py_lower_def char_props)

lemma title_from_idem: "title_from p (title_from p s) = title_from p s"
  by (induction s arbitrary: p) (simp_all add: char_props)

lemma title_from_Nil_iff: "title_from p s = [] \<longleftrightarrow> s = []"
  by (cases s) simp_all

lemma dropWhile_space_lower:
  "dropWhile is_space (py_lower s) = py_lower (dropWhile is_space s)"
  by (induction s) (simp_all add: py_lower_def is_space_lower_char)

lemma py_strip_lower: "py_strip (py_lower s) = py_lower (py_strip s)"
proof -
  have "rev (py_lower s) = py_lower (rev s)" for s
    by (simp add: py_lower_def rev_map)
  then show ?thesis
    by (simp add: py_strip_def dropWhile_space_lower)
qed

text \<open>A string that neither begins nor ends with white space is what \<open>strip\<close> returns,
  and \<open>strip\<close> leaves it as it is.\<close>

lemma py_strip_fixed:
  assumes "s \<noteq> []" "\<not> is_space (hd s)" "\<not> is_space (last s)"
  shows "py_strip s = s"
proof -
  have "dropWhile is_space s = s"
    using assms by (cases s) simp_all
  moreover have "dropWhile is_space (rev s) = rev s"
    using assms by (cases "rev s") (simp_all add: hd_rev)
  ultimately show ?thesis
    by (simp add: py_strip_def)
qed

lemma py_strip_ends:
  assumes "py_strip s \<noteq> []"
  shows "\<not> is_space (hd (py_strip s)) \<and> \<not> is_space (last (py_strip s))"
proof -
  define u where "u = dropWhile is_space s"
  define w where "w = dropWhile is_space (rev u)"
  have strip: "py_strip s = rev w"
    by (simp add: py_strip_def u_def w_def)
  with assms have w: "w \<noteq> []" by simp
  then have u: "u \<noteq> []" by (auto simp: w_def)
  have "\<not> is_space (hd w)"
    using w unfolding w_def by (rule hd_dropWhile)
  then have last: "\<not> is_space (last (py_strip s))"
    using w by (simp add: strip last_rev)
  have "\<not> is_space (hd u)"
    using u unfolding u_def by (rule hd_dropWhile)
  moreover obtain pre where "rev u = pre @ w"
    unfolding w_def by (metis takeWhile_dropWhile_id)
  then have "last w = last (rev u)"
    using w by simp
  then have "hd (rev w) = hd u"
    using w u by (simp add: hd_rev last_rev)
  ultimately show ?thesis
    using last by (simp add: strip)
qed

lemma py_strip_idem: "py_strip (py_strip s) = py_strip s"
proof (cases "py_strip s = []")
  case True
  have "py_strip [] = []"
    by (simp add: py_strip_def)
  with True show ?thesis by simp
next
  case False
  then show ?thesis
    using py_strip_ends [OF False] by (intro py_strip_fixed) simp_all
qed

lemma py_strip_title:
  assumes "py_strip s \<noteq> []"
  shows "py_strip (py_title (py_strip s)) = py_title (py_strip s)"
proof -
  let ?y = "py_strip s"
  have ne: "py_title ?y \<noteq> []"
    using assms by (simp add: py_title_def title_from_Nil_iff)
  have sp: "map is_space (py_title ?y) = map is_space ?y"
    by (simp add: py_title_def is_space_title_from)
  have "is_space (hd (py_title ?y)) = is_space (hd ?y)"
    using ne assms sp by (metis hd_map)
  moreover have "is_space (last (py_title ?y)) = is_space (last ?y)"
    using ne assms sp by (metis last_map)
  ultimately show ?thesis
    using py_strip_ends [OF assms] ne by (intro py_strip_fixed) simp_all
qed

section \<open>Properties of the normalizer\<close>

lemma normalize_empty: "normalize_test_name [] = ''Unknown Test''"
  by (simp add: normalize_test_name_def)

lemma normalize_Unknown_Test: "normalize_test_name ''Unknown Test'' = ''Unknown Test''"
  by (simp add: normalize_eval del: map_of.simps list.inject)

text \<open>Every canonical name that the alias table maps to is normalized to itself.\<close>

lemma normalize_CBC: "normalize_test_name ''CBC'' = ''CBC''"
  by (simp add: normalize_eval del: map_of.simps list.inject)

lemma normalize_HbA1c: "normalize_test_name ''HbA1c'' = ''HbA1c''"
  by (simp add: normalize_eval del: map_of.simps list.inject)

lemma normalize_Lipid_Profile: "normalize_test_name ''Lipid Profile'' = ''Lipid Profile''"
  by (simp add: normalize_eval del: map_of.simps list.inject)

lemma normalize_Thyroid_Panel: "normalize_test_name ''Thyroid Panel'' = ''Thyroid Panel''"
  by (simp add: normalize_eval del: map_of.simps list.inject)

lemma normalize_Liver_Function_Test: "normalize_test_name ''Liver Function Test'' = ''Liver Function Test''"
  by (simp add: normalize_eval del: map_of.simps list.inject)

lemma normalize_Kidney_Function_Test: "normalize_test_name ''Kidney Function Test'' = ''Kidney Function Test''"
  by (simp add: normalize_eval del: map_of.simps list.inject)

lemma normalize_Fasting_Blood_Sugar: "normalize_test_name ''Fasting Blood Sugar'' = ''Fasting Blood Sugar''"
  by (simp add: normalize_eval del: map_of.simps list.inject)

lemma normalize_Random_Blood_Sugar: "normalize_test_name ''Random Blood Sugar'' = ''Random Blood Sugar''"
  by (simp add: normalize_eval del: map_of.simps list.inject)

lemma normalize_Blood_Sugar_PP: "normalize_test_name ''Blood Sugar PP'' = ''Blood Sugar PP''"
  by (simp add: normalize_eval del: map_of.simps list.inject)

lemma normalize_X_Ray_Chest: "normalize_test_name ''X-Ray Chest'' = ''X-Ray Chest''"
  by (simp add: normalize_eval del: map_of.simps list.inject)

lemma normalize_ECG: "normalize_test_name ''ECG'' = ''ECG''"
  by (simp add: normalize_eval del: map_of.simps list.inject)

lemma normalize_Echocardiography: "normalize_test_name ''Echocardiography'' = ''Echocardiography''"
  by (simp add: normalize_eval del: map_of.simps list.inject)

lemmas normalize_canonical =
  normalize_CBC normalize_HbA1c normalize_Lipid_Profile
  normalize_Thyroid_Panel normalize_Liver_Function_Test normalize_Kidney_Function_Test
  normalize_Fasting_Blood_Sugar normalize_Random_Blood_Sugar normalize_Blood_Sugar_PP
  normalize_X_Ray_Chest normalize_ECG normalize_Echocardiography

lemma alias_target_fixed:
  assumes "map_of TEST_NAME_ALIASES l = Some c"
  shows "normalize_test_name c = c"
proof -
  have "(l, c) \<in> set TEST_NAME_ALIASES"
    using assms by (rule map_of_SomeD)
  then have "c \<in> snd ` set TEST_NAME_ALIASES"
    by force
  then show ?thesis
    using normalize_canonical by (auto simp: TEST_NAME_ALIASES_def)
qed

lemma standard_names_nonempty: "[] \<notin> set (map fst INDIAN_TEST_COSTS)"
  by (simp add: INDIAN_TEST_COSTS_def)

lemma standard_name_fixed:
  assumes "map_of TEST_NAME_ALIASES l = None"
    and "find (\<lambda>standard_name. l = py_lower standard_name) (map fst INDIAN_TEST_COSTS)
           = Some std"
    and "py_strip l = l"
  shows "normalize_test_name std = std"
proof -
  from assms(2) have l: "l = py_lower std" and mem: "std \<in> set (map fst INDIAN_TEST_COSTS)"
    by (auto simp: find_Some_iff)
  from mem standard_names_nonempty have "std \<noteq> []"
    by blast
  moreover have "py_strip (py_lower std) = l"
    using l assms(3) by simp
  ultimately show ?thesis
    using assms(1,2) by (simp add: normalize_test_name_def)
qed

text \<open>A name of white space only, which the guard lets through, is normalized to the
  empty string.\<close>

lemma lookup_empty:
  "map_of TEST_NAME_ALIASES [] = None"
  "find (\<lambda>standard_name. [] = py_lower standard_name) (map fst INDIAN_TEST_COSTS) = None"
  by (simp_all add: TEST_NAME_ALIASES_def standard_lookup)

lemma normalize_blank:
  assumes "name \<noteq> []" "py_strip name = []"
  shows "normalize_test_name name = []"
proof -
  have "py_strip (py_lower name) = py_lower (py_strip name)"
    by (rule py_strip_lower)
  also have "\<dots> = []"
    using assms(2) by (simp add: py_lower_def)
  finally have "py_strip (py_lower name) = []" .
  then show ?thesis
    using assms lookup_empty by (simp add: normalize_test_name_def py_title_def)
qed

lemma normalize_idem:
  assumes "name = [] \<or> py_strip name \<noteq> []"
  shows "normalize_test_name (normalize_test_name name) = normalize_test_name name"
proof (cases "name = []")
  case True
  then show ?thesis
    by (simp add: normalize_empty normalize_Unknown_Test)
next
  case False
  with assms have stripped: "py_strip name \<noteq> []"
    by simp
  define l where "l = py_strip (py_lower name)"
  have l_strip: "py_strip l = l"
    by (simp add: l_def py_strip_idem)
  show ?thesis
  proof (cases "map_of TEST_NAME_ALIASES l")
    case (Some c)
    then have "normalize_test_name name = c"
      using False by (simp add: normalize_test_name_def l_def)
    then show ?thesis
      using alias_target_fixed [OF Some] by simp
  next
    case None
    show ?thesis
    proof (cases "find (\<lambda>standard_name. l = py_lower standard_name)
                    (map fst INDIAN_TEST_COSTS)")
      case (Some std)
      then have "normalize_test_name name = std"
        using False None by (simp add: normalize_test_name_def l_def)
      then show ?thesis
        using standard_name_fixed [OF None Some l_strip] by simp
    next
      case no_standard: None
      define t where "t = py_title (py_strip name)"
      have name_t: "normalize_test_name name = t"
        using False None no_standard by (simp add: normalize_test_name_def l_def t_def)
      have t_ne: "t \<noteq> []"
        using stripped by (simp add: t_def py_title_def title_from_Nil_iff)
      have "py_strip (py_lower t) = py_strip (py_lower (py_strip name))"
        by (simp add: t_def py_title_def py_lower_title_from)
      also have "\<dots> = l"
        by (simp add: l_def py_strip_lower py_strip_idem)
      finally have t_l: "py_strip (py_lower t) = l" .
      have "py_title (py_strip t) = t"
        using py_strip_title [OF stripped]
        by (simp add: t_def) (simp add: py_title_def title_from_idem)
      then have "normalize_test_name t = t"
        using t_ne t_l None no_standard by (simp add: normalize_test_name_def)
      then show ?thesis
        by (simp add: name_t)
    qed
  qed
qed

section \<open>The order of dates\<close>

lemma date_less_trans: "date_less a b \<Longrightarrow> date_less b c \<Longrightarrow> date_less a c"
  by (auto simp: date_less_def)

lemma date_less_irrefl: "\<not> date_less a a"
  by (simp add: date_less_def)

lemma date_not_less_trans:
  "\<not> date_less a b \<Longrightarrow> \<not> date_less b c \<Longrightarrow> \<not> date_less a c"
  by (auto simp: date_less_def)

lemma date_less_antisym: "\<not> date_less a b \<Longrightarrow> \<not> date_less b a \<Longrightarrow> a = b"
  by (cases a; cases b) (auto simp: date_less_def)

section \<open>The scan of the history\<close>

lemma strptime_ymd_error: "strptime_ymd s = Inl e \<Longrightarrow> e = ValueError"
  by (auto simp: strptime_ymd_def split: option.splits prod.splits if_splits)

lemma hist_date_of_record_date:
  "hist_date_of (dict_get (test_date t) (PyStr [])) =
     (case record_date t of
        Some v \<Rightarrow> Inr (Some v)
      | None \<Rightarrow>
          (case dict_get (test_date t) (PyStr []) of
             PyStr s \<Rightarrow> Inl ValueError
           | _ \<Rightarrow> Inr None))"
  by (auto simp: hist_date_of_def record_date_def
      split: pyval.splits sum.splits dest: strptime_ymd_error)

text \<open>A record whose date cannot be read leaves \<open>latest_test\<close> as it is.\<close>

lemma try_record_unreadable:
  assumes "record_date t = None"
  shows "try_record latest t = Inl ValueError \<or> try_record latest t = Inr latest"
  using assms
  by (simp add: try_record_def hist_date_of_record_date split: pyval.splits)

lemma find_latest_unreadable:
  assumes "record_date t = None"
  shows "find_latest canonical latest (t # ts) = find_latest canonical latest ts"
  using try_record_unreadable [OF assms, of latest] by auto

lemma find_latest_no_survivor:
  "filter (survives canonical) ts = [] \<Longrightarrow> find_latest canonical latest ts = Inr latest"
proof (induction ts)
  case Nil
  then show ?case by simp
next
  case (Cons t ts)
  then have rest: "find_latest canonical latest ts = Inr latest"
    by (simp split: if_splits)
  show ?case
  proof (cases "normalize_test_name (dict_get (test_name t) []) = canonical")
    case False
    then show ?thesis using rest by simp
  next
    case True
    with Cons.prems have "record_date t = None"
      by (simp add: survives_def split: if_splits)
    then show ?thesis
      using rest by (simp only: find_latest_unreadable)
  qed
qed

text \<open>A record with a date that is not a \<open>datetime\<close>, met when \<open>latest_test\<close> is empty or
  holds such a date, replaces it exactly when its date is strictly greater.\<close>

lemma try_record_plain:
  assumes "plain_date t = Some d"
    and "case latest of None \<Rightarrow> True | Some l \<Rightarrow> l_date l = PyDate (dl l)"
  shows "try_record latest t =
           Inr (if (case latest of None \<Rightarrow> True | Some l \<Rightarrow> date_less (dl l) d)
                then Some (mk_latest d t) else latest)"
proof -
  from assms(1) have "record_date t = Some (PyDate d)"
    by (auto simp: plain_date_def split: option.splits pyval.splits)
  then show ?thesis
    using assms(2)
    by (auto simp: try_record_def hist_date_of_record_date py_gt_def mk_latest_def
        split: option.splits)
qed

lemma try_record_plain_None:
  "plain_date t = Some d \<Longrightarrow> try_record None t = Inr (Some (mk_latest d t))"
  using try_record_plain [where t = t and d = d and latest = None] by simp

lemma try_record_plain_Some:
  "plain_date t = Some d \<Longrightarrow> l_date l = PyDate x \<Longrightarrow>
     try_record (Some l) t = Inr (if date_less x d then Some (mk_latest d t) else Some l)"
  using try_record_plain [where t = t and d = d and latest = "Some l" and dl = "\<lambda>_. x"]
  by simp

lemma plain_date_None: "record_date t = None \<Longrightarrow> plain_date t = None"
  by (simp add: plain_date_def)

lemma find_latest_keep:
  assumes "no_datetime canonical ts"
    and "case held of None \<Rightarrow> True | Some l \<Rightarrow> (\<exists>x. l_date l = PyDate x)"
  shows "find_latest canonical held ts = Inr (keep_latest held (first_latest canonical ts))"
  using assms
proof (induction ts arbitrary: held)
  case Nil
  then show ?case by (simp add: keep_latest_def)
next
  case (Cons t ts)
  from Cons.prems(1) have rest: "no_datetime canonical ts"
    by (simp add: no_datetime_def)
  show ?case
  proof (cases "normalize_test_name (dict_get (test_name t) []) = canonical")
    case False
    then show ?thesis
      using Cons.IH [OF rest Cons.prems(2)] by simp
  next
    case True
    show ?thesis
    proof (cases "record_date t")
      case None
      then show ?thesis
        using True Cons.IH [OF rest Cons.prems(2)]
        by (simp only: find_latest_unreadable) (simp add: plain_date_None)
    next
      case (Some v)
      with True have "survives canonical t"
        by (simp add: survives_def)
      with Cons.prems(1) obtain d where d: "plain_date t = Some d"
        by (auto simp: no_datetime_def)
      have new_plain: "case Some (mk_latest d t) of None \<Rightarrow> True
                       | Some l \<Rightarrow> (\<exists>x. l_date l = PyDate x)"
        by (simp add: mk_latest_def)
      show ?thesis
      proof (cases held)
        case None
        have "find_latest canonical held (t # ts) =
                find_latest canonical (Some (mk_latest d t)) ts"
          using True None by (simp add: try_record_plain_None [OF d])
        also have "\<dots> = Inr (keep_latest (Some (mk_latest d t)) (first_latest canonical ts))"
          by (rule Cons.IH [OF rest new_plain])
        also have "keep_latest (Some (mk_latest d t)) (first_latest canonical ts) =
                     keep_latest held (first_latest canonical (t # ts))"
          using True None d
          by (auto simp: keep_latest_def mk_latest_def split: option.splits)
        finally show ?thesis .
      next
        case held: (Some l)
        with Cons.prems(2) obtain x where x: "l_date l = PyDate x"
          by auto
        show ?thesis
        proof (cases "date_less x d")
          case less: True
          have "find_latest canonical held (t # ts) =
                  find_latest canonical (Some (mk_latest d t)) ts"
            using True held less by (simp add: try_record_plain_Some [OF d x])
          also have "\<dots> =
                  Inr (keep_latest (Some (mk_latest d t)) (first_latest canonical ts))"
            by (rule Cons.IH [OF rest new_plain])
          also have "keep_latest (Some (mk_latest d t)) (first_latest canonical ts) =
                       keep_latest held (first_latest canonical (t # ts))"
            using True held d x less
            by (auto simp: keep_latest_def mk_latest_def split: option.splits
                dest: date_less_trans)
          finally show ?thesis .
        next
          case not_less: False
          have "find_latest canonical held (t # ts) = find_latest canonical held ts"
            using True held not_less by (simp add: try_record_plain_Some [OF d x])
          also have "\<dots> = Inr (keep_latest held (first_latest canonical ts))"
            by (rule Cons.IH [OF rest Cons.prems(2)])
          also have "keep_latest held (first_latest canonical ts) =
                       keep_latest held (first_latest canonical (t # ts))"
            using True held d x not_less
            by (auto simp: keep_latest_def mk_latest_def split: option.splits
                dest: date_not_less_trans)
          finally show ?thesis .
        qed
      qed
    qed
  qed
qed

lemma find_latest_start:
  assumes "no_datetime canonical ts"
  shows "find_latest canonical None ts =
           Inr (map_option (\<lambda>(d, t). mk_latest d t) (first_latest canonical ts))"
  using find_latest_keep [OF assms, of None]
  by (simp add: keep_latest_def split: option.splits)

lemma set_candidate_dates:
  "d \<in> set (candidate_dates canonical ts) \<longleftrightarrow>
     (\<exists>t \<in> set ts. survives canonical t \<and> plain_date t = Some d)"
  by (force simp: candidate_dates_def map_filter_def)

lemma plain_date_survives:
  "plain_date t = Some d \<Longrightarrow>
     survives canonical t = (normalize_test_name (dict_get (test_name t) []) = canonical)"
  by (auto simp: survives_def plain_date_def split: option.splits)

lemma first_latest_Some:
  "first_latest canonical ts = Some (d, t) \<Longrightarrow>
     t \<in> set ts \<and> survives canonical t \<and> plain_date t = Some d"
  by (induction ts arbitrary: d t)
     (auto simp: plain_date_survives split: option.splits if_splits)

lemma first_latest_None_iff:
  "first_latest canonical ts = None \<longleftrightarrow> candidate_dates canonical ts = []"
proof -
  have "first_latest canonical ts = None \<longleftrightarrow>
          (\<forall>t \<in> set ts. survives canonical t \<longrightarrow> plain_date t = None)"
    by (induction ts) (auto simp: plain_date_survives split: option.splits if_splits)
  also have "\<dots> \<longleftrightarrow> (\<forall>d. d \<notin> set (candidate_dates canonical ts))"
    unfolding set_candidate_dates by (metis option.exhaust option.distinct(1))
  also have "\<dots> \<longleftrightarrow> candidate_dates canonical ts = []"
    by (cases "candidate_dates canonical ts") auto
  finally show ?thesis .
qed

lemma first_latest_mem:
  "first_latest canonical ts = Some (d, t) \<Longrightarrow> d \<in> set (candidate_dates canonical ts)"
  using first_latest_Some set_candidate_dates by blast

lemma first_latest_max:
  "first_latest canonical ts = Some (d, t) \<Longrightarrow> d' \<in> set (candidate_dates canonical ts)
     \<Longrightarrow> \<not> date_less d d'"
proof (induction ts arbitrary: d t d')
  case Nil
  then show ?case by simp
next
  case (Cons a ts)
  show ?case
  proof (cases "normalize_test_name (dict_get (test_name a) []) = canonical
                \<and> plain_date a \<noteq> None")
    case False
    then have "first_latest canonical (a # ts) = first_latest canonical ts"
      by (auto split: option.splits)
    moreover have "d' \<in> set (candidate_dates canonical ts)"
      using Cons.prems(2) False by (auto simp: set_candidate_dates survives_def)
    ultimately show ?thesis
      using Cons.IH Cons.prems(1) by simp
  next
    case True
    then obtain da where da: "plain_date a = Some da"
      and nm: "normalize_test_name (dict_get (test_name a) []) = canonical"
      by auto
    from Cons.prems(2) have d': "d' = da \<or> d' \<in> set (candidate_dates canonical ts)"
      using da by (auto simp: set_candidate_dates)
    show ?thesis
    proof (cases "first_latest canonical ts")
      case None
      then have "set (candidate_dates canonical ts) = {}"
        using first_latest_None_iff by simp
      with d' Cons.prems(1) None da nm show ?thesis
        by (auto simp: date_less_irrefl)
    next
      case (Some p)
      obtain db tb where p: "p = (db, tb)" by (cases p)
      have rest: "\<not> date_less db x" if "x \<in> set (candidate_dates canonical ts)" for x
        using Cons.IH Some p that by simp
      show ?thesis
      proof (cases "date_less da db")
        case True
        then have "d = db"
          using Cons.prems(1) Some p da nm by simp
        with d' rest True show ?thesis
          by (auto dest: date_less_trans simp: date_less_irrefl)
      next
        case False
        then have "d = da"
          using Cons.prems(1) Some p da nm by simp
        with d' rest False show ?thesis
          by (auto dest: date_not_less_trans simp: date_less_irrefl)
      qed
    qed
  qed
qed

lemma first_latest_first:
  "first_latest canonical ts = Some (d, t) \<Longrightarrow>
     find (\<lambda>t'. survives canonical t' \<and> plain_date t' = Some d) ts = Some t"
proof (induction ts arbitrary: d t)
  case Nil
  then show ?case by simp
next
  case (Cons a ts)
  show ?case
  proof (cases "normalize_test_name (dict_get (test_name a) []) = canonical
                \<and> plain_date a \<noteq> None")
    case False
    then have "first_latest canonical (a # ts) = first_latest canonical ts"
      by (auto split: option.splits)
    with Cons.prems have "first_latest canonical ts = Some (d, t)"
      by simp
    then have "find (\<lambda>t'. survives canonical t' \<and> plain_date t' = Some d) ts = Some t"
      by (rule Cons.IH)
    moreover have "\<not> (survives canonical a \<and> plain_date a = Some d)"
      using False by (auto simp: survives_def)
    ultimately show ?thesis
      by auto
  next
    case True
    then obtain da where da: "plain_date a = Some da"
      and nm: "normalize_test_name (dict_get (test_name a) []) = canonical"
      by auto
    have sa: "survives canonical a"
      using da nm by (simp add: plain_date_survives)
    show ?thesis
    proof (cases "first_latest canonical ts")
      case None
      then show ?thesis
        using Cons.prems sa da nm by simp
    next
      case (Some p)
      obtain db tb where p: "p = (db, tb)" by (cases p)
      show ?thesis
      proof (cases "date_less da db")
        case True
        then have "d = db" "t = tb"
          using Cons.prems Some p da nm by simp_all
        moreover have "da \<noteq> db"
          using True date_less_irrefl by auto
        ultimately show ?thesis
          using Cons.IH Some p da by simp
      next
        case False
        then show ?thesis
          using Cons.prems Some p da nm sa by simp
      qed
    qed
  qed
qed

section \<open>The duplicate resolver, unfolded\<close>

text \<open>The result for a history in which no record of the test has a \<open>datetime\<close> as its
  date.\<close>

lemma detect_duplicate_unfold:
  assumes "no_datetime (normalize_test_name name) test_history"
  shows "detect_duplicate name request_date test_history =
     Inr (let canonical = normalize_test_name name;
              validity_days = dict_get (map_of VALIDITY_PERIODS canonical) 30
          in case first_latest canonical test_history of
               None \<Rightarrow> no_previous_test canonical
             | Some (d, t) \<Rightarrow>
                 (if days_between request_date d \<le> validity_days
                  then \<lparr>is_duplicate = True, res_test_name = canonical,
                        original_date = Some (PyDate d), original_value = Some (test_value t),
                        days_since = Some (days_between request_date d),
                        validity_period = Some validity_days,
                        days_remaining = Some (validity_days - days_between request_date d),
                        potential_savings = calculate_savings canonical,
                        message = duplicate_message canonical (days_between request_date d)
                                    validity_days (calculate_savings canonical)\<rparr>
                  else \<lparr>is_duplicate = False, res_test_name = canonical,
                        original_date = Some (PyDate d), original_value = None,
                        days_since = Some (days_between request_date d),
                        validity_period = Some validity_days, days_remaining = None,
                        potential_savings = 0,
                        message = recommend_message canonical (days_between request_date d)
                                    validity_days\<rparr>))"
  by (simp add: detect_duplicate_def default_validity find_latest_start [OF assms] Let_def
        no_previous_test_def mk_latest_def date_minus_days_def split: option.splits)

section \<open>The two agents agree\<close>

lemma mock_normalize_eq: "mock_normalize_test_name name = normalize_test_name name"
  by (simp add: mock_normalize_test_name_def normalize_test_name_def)

lemma mock_calculate_savings_eq: "mock_calculate_savings name = calculate_savings name"
  by (simp add: mock_calculate_savings_def calculate_savings_def mock_normalize_eq)

lemma mock_hist_date_of_eq: "mock_hist_date_of v = hist_date_of v"
  by (simp add: mock_hist_date_of_def hist_date_of_def)

lemma mock_try_record_eq: "mock_try_record latest t = try_record latest t"
  by (simp add: mock_try_record_def try_record_def mock_hist_date_of_eq)

lemma mock_find_latest_eq: "mock_find_latest n latest ts = find_latest n latest ts"
  by (induction ts arbitrary: latest)
     (simp_all add: mock_normalize_eq mock_try_record_eq split: sum.splits option.splits)

lemma mock_detect_duplicate_eq:
  "mock_detect_duplicate name request_date test_history =
     detect_duplicate name request_date test_history"
  by (simp add: mock_detect_duplicate_def detect_duplicate_def mock_normalize_eq
        mock_find_latest_eq mock_calculate_savings_eq Let_def
      split: sum.splits option.splits)

text \<open>
  Claim C9. The demo-mode agent returns what the real agent returns: for every input,
  the methods \<open>_normalize_test_name\<close>, \<open>detect_duplicate\<close>, \<open>calculate_savings\<close>,
  \<open>get_test_cost\<close> and \<open>get_validity_period\<close> of \<open>MockReportIntelligenceAgent\<close> give
  the result of the method of the same name of \<open>ReportIntelligenceAgent\<close>. Both read
  the same three tables.
\<close>

theorem mock_agent_equivalent:
  "mock_normalize_test_name name = normalize_test_name name
   \<and> mock_detect_duplicate name request_date test_history =
       detect_duplicate name request_date test_history
   \<and> mock_calculate_savings name = calculate_savings name
   \<and> mock_get_test_cost name = get_test_cost name
   \<and> mock_get_validity_period name = get_validity_period name"
  by (simp add: mock_normalize_eq mock_detect_duplicate_eq mock_calculate_savings_eq
        mock_get_test_cost_def get_test_cost_def
        mock_get_validity_period_def get_validity_period_def)

section \<open>The normalizer: claims\<close>

text \<open>
  Claim C3. The normalizer is total and never returns an empty string: the empty name
  gives \<open>Unknown Test\<close>, and every other string, a string of white space included, gives
  a non-empty string. The code does not do this for a name of white space only: the
  guard \<open>not test_name\<close> runs before \<open>strip\<close>, so a single space passes the guard and is
  normalized to the empty string.
\<close>

theorem normalize_space_empty:
  "normalize_test_name '' '' = [] \<and> normalize_test_name [] = ''Unknown Test''"
  by (simp add: normalize_blank [of "'' ''"] normalize_empty py_strip_def is_space_ascii)

text \<open>
  Claim C4. Normalization is idempotent: normalizing the result of the normalizer gives
  that result again. This fails at a name of white space only, by the same early guard:
  a single space is normalized to the empty string, and the empty string to
  \<open>Unknown Test\<close>.
\<close>

theorem normalize_space_not_idempotent:
  "normalize_test_name (normalize_test_name '' '') \<noteq> normalize_test_name '' ''"
  by (simp add: normalize_blank [of "'' ''"] normalize_empty py_strip_def is_space_ascii)

section \<open>The registry: claims\<close>

text \<open>
  Claim C8. Alias consistency: for every entry of \<open>TEST_NAME_ALIASES\<close>, an alias \<open>a\<close>
  with the canonical name \<open>c\<close>, the name \<open>c\<close> is a key of \<open>INDIAN_TEST_COSTS\<close>.
\<close>

theorem alias_consistency:
  "(a, c) \<in> set TEST_NAME_ALIASES \<Longrightarrow> c \<in> set (map fst INDIAN_TEST_COSTS)"
  by (auto simp: TEST_NAME_ALIASES_def INDIAN_TEST_COSTS_def)

theorem alias_consistency_witness:
  "(''hemogram'', ''CBC'') \<in> set TEST_NAME_ALIASES \<and> ''CBC'' \<in> set (map fst INDIAN_TEST_COSTS)"
proof -
  have h: "(''hemogram'', ''CBC'') \<in> set TEST_NAME_ALIASES"
    by (simp add: TEST_NAME_ALIASES_def)
  show ?thesis
    using h alias_consistency [OF h] by simp
qed

text \<open>
  Claim C6. \<open>get_test_cost\<close> and \<open>get_validity_period\<close> are total: each normalizes the
  name and returns the entry of its table for the normalized name, or the default, 500
  for the cost and 30 days for the validity, when the table has no such key. Neither
  raises: the read of \<open>VALIDITY_PERIODS["default"]\<close> finds its key.
\<close>

theorem cost_and_validity_total:
  "get_test_cost name =
     (case map_of INDIAN_TEST_COSTS (normalize_test_name name) of
        Some cost \<Rightarrow> cost | None \<Rightarrow> 500)
   \<and> get_validity_period name =
     Inr (case map_of VALIDITY_PERIODS (normalize_test_name name) of
            Some days \<Rightarrow> days | None \<Rightarrow> 30)"
  by (simp add: get_test_cost_def get_validity_period_def default_validity dict_get_def)

section \<open>The duplicate resolver: claims\<close>

text \<open>
  Claim C5. For every call in which no history record is both normalized to the
  canonical name of the requested test and has a readable date, the result is the dict
  with \<open>is_duplicate\<close> false, the canonical name, the message \<open>No previous test found\<close>
  and savings 0, and with no other key: the original date, the days since and the days
  remaining are absent. The empty history is such a call.
\<close>

theorem no_previous_result:
  assumes "filter (survives (normalize_test_name name)) test_history = []"
  shows "detect_duplicate name request_date test_history =
           Inr \<lparr>is_duplicate = False, res_test_name = normalize_test_name name,
                original_date = None, original_value = None, days_since = None,
                validity_period = None, days_remaining = None, potential_savings = 0,
                message = ''No previous test found''\<rparr>
         \<and> detect_duplicate name request_date [] =
           Inr \<lparr>is_duplicate = False, res_test_name = normalize_test_name name,
                original_date = None, original_value = None, days_since = None,
                validity_period = None, days_remaining = None, potential_savings = 0,
                message = ''No previous test found''\<rparr>"
  using find_latest_no_survivor [OF assms, of None]
  by (simp add: detect_duplicate_def default_validity Let_def)

section \<open>Evaluating the examples\<close>

lemmas date_eval = record_date_def dict_get_def strptime_ymd_def match_year_def
  two_chars_def one_char_def month_alternatives_def day_alternatives_def
  starts_with_dash_def digit_value_def ascii_digits_def nonzero_digits_def
  days_in_month_def is_leap_def DAYS_IN_MONTH_def

lemmas ordinal_eval = days_between_def toordinal_def days_before_year_def
  days_before_month_def is_leap_def DAYS_IN_MONTH_def Let_def

lemma record_date_examples:
  "record_date (hba1c_record (PyStr ''2024-10-15'') v) = Some (PyDate (Date 2024 10 15))"
  "record_date (hba1c_record (PyStr ''15/10/2024'') v) = None"
  "record_date (hba1c_record PyNone v) = None"
  "record_date (hba1c_record (PyDate d) v) = Some (PyDate d)"
  "record_date (hba1c_record (PyDateTime dt) v) = Some (PyDateTime dt)"
  by (simp_all add: hba1c_record_def date_eval)

lemma plain_date_examples:
  "plain_date (hba1c_record (PyStr ''2024-10-15'') v) = Some (Date 2024 10 15)"
  "plain_date (hba1c_record (PyDate d) v) = Some d"
  by (simp_all add: plain_date_def record_date_examples)

lemma days_between_examples:
  "days_between (Date 2024 11 15) (Date 2024 10 15) = 31"
  "days_between (Date 2025 3 1) (Date 2024 10 15) = 137"
  by (simp_all add: ordinal_eval)

lemma hba1c_tables:
  "map_of VALIDITY_PERIODS ''HbA1c'' = Some 90"
  "map_of INDIAN_TEST_COSTS ''HbA1c'' = Some 700"
  by (simp_all add: VALIDITY_PERIODS_def INDIAN_TEST_COSTS_def)

lemma survives_hba1c:
  "survives ''HbA1c'' (hba1c_record d v) = (record_date (hba1c_record d v) \<noteq> None)"
  by (simp add: survives_def hba1c_record_def dict_get_def normalize_HbA1c)

lemma name_hba1c:
  "normalize_test_name (dict_get (test_name (hba1c_record d v)) []) = ''HbA1c''"
  by (simp add: hba1c_record_def dict_get_def normalize_HbA1c)

lemma hba1c_savings: "calculate_savings ''HbA1c'' = 700"
  by (simp add: calculate_savings_def normalize_HbA1c hba1c_tables dict_get_def)

lemma hba1c_validity_days: "dict_get (map_of VALIDITY_PERIODS ''HbA1c'') 30 = 90"
  by (simp add: hba1c_tables dict_get_def)

text \<open>The \<open>try\<close> block at a record of the examples.\<close>

lemma try_record_examples:
  "try_record None (hba1c_record (PyDateTime dt) v) =
     Inr (Some \<lparr>l_date = PyDateTime dt, l_value = Some v, l_hospital = None\<rparr>)"
  "try_record None (hba1c_record (PyDate d) v) =
     Inr (Some \<lparr>l_date = PyDate d, l_value = Some v, l_hospital = None\<rparr>)"
  "try_record (Some \<lparr>l_date = PyDateTime dt, l_value = w, l_hospital = None\<rparr>)
     (hba1c_record (PyDate d) v) = Inl TypeError"
  "try_record (Some \<lparr>l_date = PyDate d, l_value = w, l_hospital = None\<rparr>)
     (hba1c_record (PyDateTime dt) v) = Inl TypeError"
  "try_record (Some \<lparr>l_date = PyDateTime dt, l_value = w, l_hospital = None\<rparr>)
     (hba1c_record (PyStr ''2024-10-15'') v) = Inl TypeError"
  by (simp_all add: try_record_def hist_date_of_def hba1c_record_def py_gt_def date_eval)

section \<open>The duplicate resolver: examples\<close>

theorem no_previous_result_witness:
  "filter (survives (normalize_test_name ''HbA1c''))
     [hba1c_record (PyStr ''15/10/2024'') ''5.8'', hba1c_record PyNone ''6.0''] = []
   \<and> detect_duplicate ''HbA1c'' (Date 2024 11 15)
       [hba1c_record (PyStr ''15/10/2024'') ''5.8'', hba1c_record PyNone ''6.0''] =
       Inr \<lparr>is_duplicate = False, res_test_name = ''HbA1c'',
            original_date = None, original_value = None, days_since = None,
            validity_period = None, days_remaining = None, potential_savings = 0,
            message = ''No previous test found''\<rparr>"
proof -
  let ?h = "[hba1c_record (PyStr ''15/10/2024'') ''5.8'', hba1c_record PyNone ''6.0'']"
  have h: "filter (survives (normalize_test_name ''HbA1c'')) ?h = []"
    by (simp add: normalize_HbA1c survives_hba1c record_date_examples)
  show ?thesis
    using h no_previous_result [OF h, of "Date 2024 11 15"]
    by (simp add: normalize_HbA1c)
qed

text \<open>
  Claim C1. For every call in which a history record of the requested test survives
  the scan, the result is a duplicate exactly when the days since the most recent such
  record are at most the validity of the test, with the savings and the days remaining
  that go with it. The code does not return a result when the record that the scan keeps
  has a \<open>datetime\<close> as its date: \<open>isinstance(hist_date_str, date)\<close> accepts it, the scan
  stores it, and the subtraction from the request date, after the loop and outside the
  \<open>try\<close> block, raises \<open>TypeError\<close>. Here the record is of 15 October 2024, 10:30.
\<close>

theorem datetime_record_raises:
  "detect_duplicate ''HbA1c'' (Date 2024 11 15)
     [hba1c_record (PyDateTime (DateTime (Date 2024 10 15) 37800000000 None)) ''5.8''] =
   Inl TypeError"
  by (simp add: detect_duplicate_def Let_def default_validity normalize_HbA1c name_hba1c
        try_record_examples date_minus_days_def)

text \<open>
  Claim C2. Among the records of the requested test whose dates can be read, the one
  with the greatest date gives the original date and the days since, whatever the order
  of the history. With a \<open>date\<close> and a later \<open>datetime\<close> in the history the order decides:
  the comparison of the two raises \<open>TypeError\<close>, which the \<open>except\<close> clause takes, so the
  scan keeps whichever comes first. With the \<open>date\<close> first the result is counted from
  15 October, not from the record of 1 November; with the \<open>datetime\<close> first the call
  raises.
\<close>

theorem selection_depends_on_order:
  "detect_duplicate ''HbA1c'' (Date 2024 11 15)
     [hba1c_record (PyDate (Date 2024 10 15)) ''5.8'',
      hba1c_record (PyDateTime (DateTime (Date 2024 11 1) 37800000000 None)) ''6.1''] =
   Inr \<lparr>is_duplicate = True, res_test_name = ''HbA1c'',
        original_date = Some (PyDate (Date 2024 10 15)),
        original_value = Some (Some ''5.8''), days_since = Some 31,
        validity_period = Some 90, days_remaining = Some 59, potential_savings = 700,
        message = duplicate_message ''HbA1c'' 31 90 700\<rparr>
   \<and> detect_duplicate ''HbA1c'' (Date 2024 11 15)
     [hba1c_record (PyDateTime (DateTime (Date 2024 11 1) 37800000000 None)) ''6.1'',
      hba1c_record (PyDate (Date 2024 10 15)) ''5.8''] =
   Inl TypeError"
  by (simp add: detect_duplicate_def Let_def default_validity normalize_HbA1c name_hba1c
        try_record_examples date_minus_days_def hba1c_validity_days hba1c_savings
        days_between_examples)

text \<open>
  Claim C7. \<open>detect_duplicate\<close> never raises for a malformed history entry: a record whose
  date cannot be used is skipped and the others are processed. A record with a
  \<open>datetime\<close> as its date, first in the history, is kept by the scan; the well-formed
  record after it, with the date string \<open>2024-10-15\<close>, is then skipped, because its
  comparison with the \<open>datetime\<close> raises the \<open>TypeError\<close> that the \<open>except\<close> clause takes;
  and the call raises \<open>TypeError\<close> at the subtraction after the loop.
\<close>

theorem datetime_entry_aborts:
  "detect_duplicate ''HbA1c'' (Date 2024 11 15)
     [hba1c_record (PyDateTime (DateTime (Date 2024 9 1) 0 None)) ''5.5'',
      hba1c_record (PyStr ''2024-10-15'') ''5.8''] =
   Inl TypeError"
  by (simp add: detect_duplicate_def Let_def default_validity normalize_HbA1c name_hba1c
        try_record_examples date_minus_days_def)

section \<open>Ties on the most recent date\<close>

lemma try_record_tie:
  "try_record None (hba1c_record (PyStr ''2024-10-15'') v) =
     Inr (Some \<lparr>l_date = PyDate (Date 2024 10 15), l_value = Some v, l_hospital = None\<rparr>)"
  "try_record (Some \<lparr>l_date = PyDate d, l_value = w, l_hospital = None\<rparr>)
     (hba1c_record (PyDate d) v) =
     Inr (Some \<lparr>l_date = PyDate d, l_value = w, l_hospital = None\<rparr>)"
  by (simp_all add: try_record_def hist_date_of_def hba1c_record_def py_gt_def date_eval
        date_less_irrefl)

text \<open>
  Claim C10, as stated: in a history with two or more records of the test that share
  the greatest date, the first of them in the order of the history is used, and its test
  value is the original value of the result. This fails where the result is not a
  duplicate, which has no original value: two records of 15 October 2024 with the
  values 5.8 and 6.1, and a request on 1 March 2025, 137 days later, past the validity
  of 90 days.
\<close>

theorem tie_without_original_value:
  "detect_duplicate ''HbA1c'' (Date 2025 3 1)
     [hba1c_record (PyStr ''2024-10-15'') ''5.8'',
      hba1c_record (PyDate (Date 2024 10 15)) ''6.1''] =
   Inr \<lparr>is_duplicate = False, res_test_name = ''HbA1c'',
        original_date = Some (PyDate (Date 2024 10 15)), original_value = None,
        days_since = Some 137, validity_period = Some 90, days_remaining = None,
        potential_savings = 0, message = recommend_message ''HbA1c'' 137 90\<rparr>"
  by (simp add: detect_duplicate_def Let_def default_validity normalize_HbA1c name_hba1c
        try_record_tie date_minus_days_def hba1c_validity_days days_between_examples)

text \<open>
  Claim C10, amended. In a history whose records of the test have a date or a date
  string as their date, and no \<open>datetime\<close>, let \<open>d\<close> be the greatest date of the surviving
  records and \<open>first\<close> the first record of the history that survives with the date \<open>d\<close>.
  Then \<open>detect_duplicate\<close> returns a result with \<open>d\<close> as its original date; when the
  result is a duplicate, its original value is the test value of \<open>first\<close>, because a
  later record replaces the one held only when its date is strictly greater; when the
  result is not a duplicate, it has no original value.
\<close>

theorem tie_break_first:
  assumes "no_datetime (normalize_test_name name) test_history"
    and "find (\<lambda>t. survives (normalize_test_name name) t \<and> plain_date t = Some d)
           test_history = Some first"
    and "\<forall>d' \<in> set (candidate_dates (normalize_test_name name) test_history).
           \<not> date_less d d'"
  shows "\<exists>r. detect_duplicate name request_date test_history = Inr r
           \<and> original_date r = Some (PyDate d)
           \<and> original_value r = (if is_duplicate r then Some (test_value first) else None)"
proof -
  let ?c = "normalize_test_name name"
  from assms(2) have "first \<in> set test_history" "survives ?c first"
    "plain_date first = Some d"
    by (auto simp: find_Some_iff)
  then have mem: "d \<in> set (candidate_dates ?c test_history)"
    unfolding set_candidate_dates by blast
  have "first_latest ?c test_history \<noteq> None"
  proof
    assume "first_latest ?c test_history = None"
    then have "candidate_dates ?c test_history = []"
      by (simp add: first_latest_None_iff)
    with mem show False by simp
  qed
  then obtain d0 t0 where sel: "first_latest ?c test_history = Some (d0, t0)"
    by auto
  have "\<not> date_less d0 d"
    using first_latest_max [OF sel mem] .
  moreover have "\<not> date_less d d0"
    using assms(3) first_latest_mem [OF sel] by blast
  ultimately have d0: "d0 = d"
    by (simp add: date_less_antisym)
  have "find (\<lambda>t. survives ?c t \<and> plain_date t = Some d0) test_history = Some t0"
    using sel by (rule first_latest_first)
  with assms(2) d0 have t0: "t0 = first"
    by simp
  show ?thesis
    using sel d0 t0 by (simp add: detect_duplicate_unfold [OF assms(1)] Let_def)
qed

theorem tie_break_first_witness:
  "no_datetime (normalize_test_name ''HbA1c'')
     [hba1c_record (PyStr ''2024-10-15'') ''5.8'',
      hba1c_record (PyDate (Date 2024 10 15)) ''6.1'']
   \<and> find (\<lambda>t. survives (normalize_test_name ''HbA1c'') t
                \<and> plain_date t = Some (Date 2024 10 15))
         [hba1c_record (PyStr ''2024-10-15'') ''5.8'',
          hba1c_record (PyDate (Date 2024 10 15)) ''6.1''] =
       Some (hba1c_record (PyStr ''2024-10-15'') ''5.8'')
   \<and> candidate_dates (normalize_test_name ''HbA1c'')
         [hba1c_record (PyStr ''2024-10-15'') ''5.8'',
          hba1c_record (PyDate (Date 2024 10 15)) ''6.1''] =
       [Date 2024 10 15, Date 2024 10 15]
   \<and> (\<exists>r. detect_duplicate ''HbA1c'' (Date 2024 11 15)
              [hba1c_record (PyStr ''2024-10-15'') ''5.8'',
               hba1c_record (PyDate (Date 2024 10 15)) ''6.1''] = Inr r
          \<and> original_date r = Some (PyDate (Date 2024 10 15))
          \<and> original_value r =
              (if is_duplicate r then Some (Some ''5.8'') else None))"
proof -
  let ?first = "hba1c_record (PyStr ''2024-10-15'') ''5.8''"
  let ?h = "[?first, hba1c_record (PyDate (Date 2024 10 15)) ''6.1'']"
  have nd: "no_datetime (normalize_test_name ''HbA1c'') ?h"
    by (simp add: no_datetime_def normalize_HbA1c plain_date_examples)
  have first: "find (\<lambda>t. survives (normalize_test_name ''HbA1c'') t
                          \<and> plain_date t = Some (Date 2024 10 15)) ?h = Some ?first"
    by (simp add: normalize_HbA1c survives_hba1c record_date_examples plain_date_examples)
  have dates: "candidate_dates (normalize_test_name ''HbA1c'') ?h =
                 [Date 2024 10 15, Date 2024 10 15]"
    by (simp add: candidate_dates_def map_filter_def normalize_HbA1c survives_hba1c
          record_date_examples plain_date_examples)
  have top: "\<forall>d' \<in> set (candidate_dates (normalize_test_name ''HbA1c'') ?h).
               \<not> date_less (Date 2024 10 15) d'"
    by (simp add: dates date_less_irrefl)
  have first_value: "test_value ?first = Some ''5.8''"
    by (simp add: hba1c_record_def)
  have result: "\<exists>r. detect_duplicate ''HbA1c'' (Date 2024 11 15) ?h = Inr r
                 \<and> original_date r = Some (PyDate (Date 2024 10 15))
                 \<and> original_value r =
                     (if is_duplicate r then Some (Some ''5.8'') else None)"
    using tie_break_first [OF nd first top, of "Date 2024 11 15"]
    unfolding first_value .
  from nd first dates result show ?thesis
    by (intro conjI)
qed

end
